theory Spec2Isabelle
  imports Complex_Main "HOL-Library.Word"
begin

section \<open>svg2img: data model\<close>

text \<open>
  The header \<^verbatim>\<open>svg2img.h\<close> requires the Emscripten/WebAssembly environment, where
  \<^verbatim>\<open>std::size_t\<close> and pointers are 32 bits wide.  A \<^verbatim>\<open>std::string_view\<close> is
  modelled by the bytes it views; its \<^verbatim>\<open>size()\<close> is their number, read as a
  \<^verbatim>\<open>std::size_t\<close>.  Where the code computes with the address of the bytes, that
  address is given beside them.
\<close>

type_synonym byte = "8 word"
type_synonym size_t = "32 word"
type_synonym addr = "32 word"
type_synonym string_view = "byte list"

text \<open>\<^verbatim>\<open>enum class Error\<close>; \<^verbatim>\<open>Error::None\<close> is written \<open>None'\<close>.\<close>

datatype Error =
    None'
  | NoInputData
  | UriEncodingFailed
  | ImgLoadingFailed
  | CanvasDrawingFailed
  | BlobExportFailed

text \<open>\<^verbatim>\<open>enum class Format\<close>.\<close>

datatype Format = Png | Jpeg | Webp | Unknown

text \<open>
  What can go wrong in a helper: a failed \<^verbatim>\<open>assert\<close>, with its message, or a read
  through an iterator that points outside the viewed bytes (undefined behaviour; on the
  target it reads whatever the linear memory holds there).
\<close>

datatype fault = AssertionFailed string | OutOfBoundsRead

section \<open>Helpers: \<^verbatim>\<open>GetImageHeader\<close> and \<^verbatim>\<open>GetImageFormat\<close>\<close>

text \<open>\<^verbatim>\<open>std::format("{:02X}", ch)\<close> for a \<^verbatim>\<open>std::uint8_t\<close>: two upper-case hex digits.\<close>

definition hex_digit :: "nat \<Rightarrow> char" where
  "hex_digit d = ''0123456789ABCDEF'' ! d"

definition format_02X :: "byte \<Rightarrow> string" where
  "format_02X ch = [hex_digit (unat ch div 16), hex_digit (unat ch mod 16)]"

text \<open>
  \<^verbatim>\<open>std::for_each(begin, end, f)\<close> visits the elements of the view between two
  iterators; an iterator into the view is given here by its distance from
  \<^verbatim>\<open>img.cbegin()\<close>.
\<close>

definition range_between :: "string_view \<Rightarrow> size_t \<Rightarrow> size_t \<Rightarrow> byte list" where
  "range_between img it_first it_last =
     take (unat it_last - unat it_first) (drop (unat it_first) img)"

text \<open>
  \<^verbatim>\<open>GetImageHeader\<close>.  The iterators of a \<^verbatim>\<open>std::string_view\<close> are pointers:
  \<^verbatim>\<open>img.cbegin()\<close> is the address \<open>data\<close> of the first byte and \<^verbatim>\<open>img.cend()\<close> is
  \<open>data + size\<close>.  \<^verbatim>\<open>img.cbegin() + pos\<close> and \<^verbatim>\<open>img.cbegin() + pos + n\<close> are computed
  in 32-bit address arithmetic, which wraps around, and the two \<^verbatim>\<open>std::min\<close> compare
  addresses.  So the end can come out before the begin (the \<^verbatim>\<open>assert\<close>), and the begin
  can come out before the first byte of the view, where the loop reads outside it.
\<close>

definition GetImageHeader :: "addr \<Rightarrow> string_view \<Rightarrow> size_t \<Rightarrow> size_t \<Rightarrow> fault + string" where
  "GetImageHeader data img pos n =
     (let cbegin = data;
          cend = data + of_nat (length img);
          it_begin = min (cbegin + pos) cend;
          it_end = min (cbegin + pos + n) cend
      in if \<not> it_begin \<le> it_end
         then Inl (AssertionFailed ''Wrong header range [raster::GetImageHeader()]'')
         else if it_begin < it_end \<and> it_begin < cbegin
         then Inl OutOfBoundsRead
         else
           let out = foldl (\<lambda>out ch. out @ format_02X ch @ '' '') []
                       (range_between img (it_begin - cbegin) (it_end - cbegin));
               header = (if out \<noteq> [] then butlast out else out)
           in Inr header)"

definition png_sig :: string where "png_sig = ''89 50 4E 47 0D 0A 1A 0A''"
definition jpeg_sig :: string where "jpeg_sig = ''FF D8''"
definition riff_sig :: string where "riff_sig = ''52 49 46 46''"
definition webp_sig :: string where "webp_sig = ''57 45 42 50''"

text \<open>\<^verbatim>\<open>GetImageFormat\<close>; the second operand of \<^verbatim>\<open>and\<close> is evaluated only when the first holds.\<close>

definition GetImageFormat :: "addr \<Rightarrow> string_view \<Rightarrow> fault + Format" where
  "GetImageFormat data img =
     (case GetImageHeader data img 0 8 of
        Inl f \<Rightarrow> Inl f
      | Inr h8 \<Rightarrow>
          if h8 = png_sig then Inr Png
          else (case GetImageHeader data img 0 2 of
                  Inl f \<Rightarrow> Inl f
                | Inr h2 \<Rightarrow>
                    if h2 = jpeg_sig then Inr Jpeg
                    else (case GetImageHeader data img 0 4 of
                            Inl f \<Rightarrow> Inl f
                          | Inr h4 \<Rightarrow>
                              if h4 = riff_sig
                              then (case GetImageHeader data img 8 4 of
                                      Inl f \<Rightarrow> Inl f
                                    | Inr hw \<Rightarrow> if hw = webp_sig then Inr Webp else Inr Unknown)
                              else Inr Unknown)))"

subsection \<open>The format of the specification\<close>

text \<open>
  The specification's words: two-digit upper-case hex pairs, separated by single spaces,
  with no space before the first or after the last pair.
\<close>

fun hex_pairs :: "byte list \<Rightarrow> string" where
  "hex_pairs [] = []"
| "hex_pairs [b] = format_02X b"
| "hex_pairs (b # bs) = format_02X b @ '' '' @ hex_pairs bs"

text \<open>The value of an upper-case hex digit; lower-case digits are not accepted.\<close>

definition hex_value :: "char \<Rightarrow> nat option" where
  "hex_value c = map_of (zip ''0123456789ABCDEF'' [0..<16]) c"

definition pair_value :: "char \<Rightarrow> char \<Rightarrow> byte option" where
  "pair_value a b =
     (case (hex_value a, hex_value b) of
        (Some x, Some y) \<Rightarrow> Some (of_nat (16 * x + y))
      | _ \<Rightarrow> None)"

text \<open>
  A reader for that format: it accepts exactly the strings made of pairs of upper-case
  hex digits with one space between two pairs and none at either end, and returns the
  bytes they denote.
\<close>

fun read_hex_pairs :: "string \<Rightarrow> byte list option" where
  "read_hex_pairs [] = Some []"
| "read_hex_pairs [a, b] = map_option (\<lambda>v. [v]) (pair_value a b)"
| "read_hex_pairs (a # b # c # rest) =
     (if c = CHR '' '' \<and> rest \<noteq> []
      then (case (pair_value a b, read_hex_pairs rest) of
              (Some v, Some vs) \<Rightarrow> Some (v # vs)
            | _ \<Rightarrow> None)
      else None)"
| "read_hex_pairs [a] = None"

text \<open>The bytes of \<open>[pos, pos + n)\<close>, clipped to the buffer at both ends.\<close>

definition clipped :: "string_view \<Rightarrow> nat \<Rightarrow> nat \<Rightarrow> byte list" where
  "clipped img pos n = take n (drop pos img)"

definition PNG_MAGIC :: "byte list" where
  "PNG_MAGIC = [0x89, 0x50, 0x4E, 0x47, 0x0D, 0x0A, 0x1A, 0x0A]"
definition JPEG_MAGIC :: "byte list" where
  "JPEG_MAGIC = [0xFF, 0xD8]"
definition RIFF_MAGIC :: "byte list" where
  "RIFF_MAGIC = [0x52, 0x49, 0x46, 0x46]"
definition WEBP_MAGIC :: "byte list" where
  "WEBP_MAGIC = [0x57, 0x45, 0x42, 0x50]"

text \<open>
  The specification's classification by fixed signatures: the 8-byte PNG magic at
  offset 0; the 2-byte JPEG magic at offset 0; \<open>RIFF\<close> at offset 0 and \<open>WEBP\<close> at
  offset 8; otherwise unknown.
\<close>

definition signature_at :: "string_view \<Rightarrow> nat \<Rightarrow> byte list \<Rightarrow> bool" where
  "signature_at img off sig = (take (length sig) (drop off img) = sig)"

definition signature_format :: "string_view \<Rightarrow> Format" where
  "signature_format img =
     (if signature_at img 0 PNG_MAGIC then Png
      else if signature_at img 0 JPEG_MAGIC then Jpeg
      else if signature_at img 0 RIFF_MAGIC \<and> signature_at img 8 WEBP_MAGIC then Webp
      else Unknown)"

section \<open>The conversion pipeline\<close>

subsection \<open>Values\<close>

text \<open>
  A JavaScript number as the pipeline sees one: the \<^verbatim>\<open>float\<close> arguments arrive as
  numbers, and only their truth value is inspected.  \<open>Finite 0\<close> stands for both zeros.
\<close>

datatype number = Finite rat | NaN | Infinity | NegInfinity

definition truthy :: "number \<Rightarrow> bool" where
  "truthy v = (v \<noteq> Finite 0 \<and> v \<noteq> NaN)"

text \<open>JavaScript's \<^verbatim>\<open>a && b\<close>: the first operand when it is falsy, else the second.\<close>

definition js_and :: "number \<Rightarrow> number \<Rightarrow> number" where
  "js_and a b = (if truthy a then b else a)"

text \<open>
  The client's callback, \<^verbatim>\<open>std::function<void(std::string_view, Error, void*)>\<close>:
  it is given the image, the error and the metadata pointer, and either returns or
  throws (the header asks for a \<^verbatim>\<open>noexcept\<close> callback but cannot enforce it).
\<close>

datatype cb_outcome = Returns | Throws

type_synonym Callback = "string_view \<Rightarrow> Error \<Rightarrow> addr \<Rightarrow> cb_outcome"

text \<open>How a call ends: normally, or with an exception travelling to the caller.\<close>

datatype outcome = Normal | Exception | UndefinedBehaviour

text \<open>The decoded \<^verbatim>\<open><img>\<close> and the \<^verbatim>\<open><canvas>\<close>.\<close>

record image =
  img_width :: number
  img_height :: number

record canvas =
  canvas_width :: number
  canvas_height :: number

text \<open>The functions of the JavaScript part, for the trace.\<close>

datatype js_function =
    F_failed | F_svgToDataUri | F_drawSvg | F_setCanvasSize | F_processBlob | F_loadImage

text \<open>What an observer of one request can see, in order.\<close>

datatype event =
    HandleCreated addr
  | HandleDestroyed addr
  | CallbackInvoked string_view Error addr
  | HostEntered
  | Entered js_function
  | ImgSrcAssigned string
  | CanvasSized number number
  | DrawImage5 number number number number
  | DrawImage3 number number
  | ToBlobCalled string number
  | BufferAllocated addr nat
  | BufferFreed addr
  | Alerted
  | UncaughtException

text \<open>What the host has been asked for and has not answered yet.\<close>

datatype task =
    AwaitImg string
  | AwaitBlob
  | AwaitArrayBuffer "byte list"

text \<open>
  The state: the linear memory of the WebAssembly module, the live blocks of
  \<^verbatim>\<open>Module._malloc\<close>, the live \<^verbatim>\<open>Callback\<close> copies made by \<^verbatim>\<open>new\<close>, the pending
  host task and the trace.
\<close>

record world =
  memory :: "addr \<Rightarrow> byte"
  buffers :: "addr list"
  callbacks :: "addr \<rightharpoonup> Callback"
  pending :: "task option"
  trace :: "event list"

text \<open>
  The host environment, which the library does not control: the addresses the allocators
  hand out and how the browser answers each request.  Every asynchronous request is
  answered exactly once: an \<^verbatim>\<open><img>\<close> fires one of \<^verbatim>\<open>load\<close> and \<^verbatim>\<open>error\<close>,
  \<^verbatim>\<open>toBlob\<close> calls back once, a promise settles once.
\<close>

record host =
  h_new :: addr
  h_encodeURIComponent :: "byte list \<Rightarrow> string option"
  h_img :: "image option"
  h_getContext :: bool
  h_drawImage_throws :: bool
  h_toBlob_throws :: bool
  h_toBlob :: "byte list option"
  h_arrayBuffer :: bool
  h_malloc :: addr

text \<open>The arguments of one call of \<^verbatim>\<open>raster::SvgToImage\<close>.\<close>

record request =
  r_svg :: string_view
  r_cb :: Callback
  r_meta :: addr
  r_format :: string
  r_quality :: number
  r_x :: number
  r_y :: number
  r_width :: number
  r_height :: number

text \<open>The arguments of \<^verbatim>\<open>aux::SvgToImage\<close>, which its inner functions close over.\<close>

record closure =
  c_data :: string_view
  c_size :: size_t
  c_pcb :: addr
  c_meta :: addr
  c_format :: string
  c_quality :: number
  c_x :: number
  c_y :: number
  c_width :: number
  c_height :: number

definition emit :: "event \<Rightarrow> world \<Rightarrow> world" where
  "emit e w = w\<lparr>trace := trace w @ [e]\<rparr>"

subsection \<open>\<^verbatim>\<open>aux::ExecCb\<close>\<close>

text \<open>The view \<^verbatim>\<open>{data, size}\<close>: \<open>sz\<close> bytes of the memory from \<open>data\<close> on.\<close>

definition view_at :: "(addr \<Rightarrow> byte) \<Rightarrow> addr \<Rightarrow> size_t \<Rightarrow> string_view" where
  "view_at mem data sz = map (\<lambda>i. mem (data + of_nat i)) [0..<unat sz]"

text \<open>
  \<^verbatim>\<open>ExecCb\<close> copies the callback out of \<open>*pcb\<close>, calls it, and deletes \<open>pcb\<close> afterwards;
  an exception of the callback leaves the function before the \<^verbatim>\<open>delete\<close>.
\<close>

definition ExecCb :: "addr \<Rightarrow> addr \<Rightarrow> size_t \<Rightarrow> Error \<Rightarrow> addr \<Rightarrow> world \<Rightarrow> outcome \<times> world" where
  "ExecCb pcb data sz err meta w =
     (case callbacks w pcb of
        None \<Rightarrow> (UndefinedBehaviour, w)
      | Some cb \<Rightarrow>
          let view = (if data \<noteq> 0 \<and> sz > 0 then view_at (memory w) data sz else []);
              w1 = emit (CallbackInvoked view err meta) w
          in case cb view err meta of
               Throws \<Rightarrow> (Exception, w1)
             | Returns \<Rightarrow>
                 (Normal, emit (HandleDestroyed pcb) (w1\<lparr>callbacks := (callbacks w1)(pcb := None)\<rparr>)))"

subsection \<open>The JavaScript part, \<^verbatim>\<open>aux::SvgToImage\<close>\<close>

text \<open>The table \<^verbatim>\<open>RasterError\<close>.\<close>

definition RasterError_None :: int where "RasterError_None = 0"
definition RasterError_NoInputData :: int where "RasterError_NoInputData = 1"
definition RasterError_UriEncodingFailed :: int where "RasterError_UriEncodingFailed = 2"
definition RasterError_ImgLoadingFailed :: int where "RasterError_ImgLoadingFailed = 3"
definition RasterError_CanvasDrawingFailed :: int where "RasterError_CanvasDrawingFailed = 4"
definition RasterError_BlobExportFailed :: int where "RasterError_BlobExportFailed = 5"

text \<open>The enumerator of \<^verbatim>\<open>enum class Error: int\<close> with a given value, if there is one.\<close>

definition Error_of_int :: "int \<Rightarrow> Error option" where
  "Error_of_int i =
     (if i = 0 then Some None'
      else if i = 1 then Some NoInputData
      else if i = 2 then Some UriEncodingFailed
      else if i = 3 then Some ImgLoadingFailed
      else if i = 4 then Some CanvasDrawingFailed
      else if i = 5 then Some BlobExportFailed
      else None)"

text \<open>\<^verbatim>\<open>Module.ccall("ExecCb", ...)\<close>: the numbers become the arguments of \<^verbatim>\<open>ExecCb\<close>.\<close>

definition ccall_ExecCb :: "addr \<Rightarrow> addr \<Rightarrow> nat \<Rightarrow> int \<Rightarrow> addr \<Rightarrow> world \<Rightarrow> outcome \<times> world" where
  "ccall_ExecCb pcb data sz err meta w =
     (case Error_of_int err of
        None \<Rightarrow> (UndefinedBehaviour, w)
      | Some e \<Rightarrow> ExecCb pcb data (of_nat sz) e meta w)"

text \<open>\<^verbatim>\<open>failed(err)\<close> signals the client about an error.\<close>

definition failed :: "closure \<Rightarrow> int \<Rightarrow> world \<Rightarrow> outcome \<times> world" where
  "failed c err w = ccall_ExecCb (c_pcb c) 0 0 err (c_meta c) (emit (Entered F_failed) w)"

text \<open>
  \<^verbatim>\<open>UTF8ToString(data, size)\<close> reads up to \<open>sz\<close> bytes and stops at a terminator; the
  string is represented by its bytes.
\<close>

definition UTF8ToString :: "string_view \<Rightarrow> size_t \<Rightarrow> byte list" where
  "UTF8ToString data sz = takeWhile (\<lambda>b. b \<noteq> 0) (take (unat sz) data)"

text \<open>
  \<^verbatim>\<open>svgToDataUri\<close>: the data uri, or \<^verbatim>\<open>null\<close> (here \<open>None\<close>) after the client has been
  told about the failed encoding.
\<close>

definition svgToDataUri :: "host \<Rightarrow> closure \<Rightarrow> world \<Rightarrow> outcome \<times> string option \<times> world" where
  "svgToDataUri h c w =
     (let w1 = emit (Entered F_svgToDataUri) w;
          svg = UTF8ToString (c_data c) (c_size c)
      in case h_encodeURIComponent h svg of
           Some enc \<Rightarrow> (Normal, Some (''data:image/svg+xml;charset=utf8,'' @ enc), w1)
         | None \<Rightarrow>
             (case failed c RasterError_UriEncodingFailed w1 of
                (out, w2) \<Rightarrow> (out, None, w2)))"

text \<open>\<^verbatim>\<open>setCanvasSize\<close> tests the \<open>width\<close> and \<open>height\<close> of the request and assigns its own parameters.\<close>

definition setCanvasSize ::
    "closure \<Rightarrow> canvas \<Rightarrow> number \<Rightarrow> number \<Rightarrow> image \<Rightarrow> world \<Rightarrow> canvas \<times> world" where
  "setCanvasSize c cv w_arg h_arg img w =
     (let w1 = emit (Entered F_setCanvasSize) w
      in if truthy (js_and (c_width c) (c_height c))
         then (cv\<lparr>canvas_width := w_arg, canvas_height := h_arg\<rparr>, emit (CanvasSized w_arg h_arg) w1)
         else (cv\<lparr>canvas_width := img_width img, canvas_height := img_height img\<rparr>,
               emit (CanvasSized (img_width img) (img_height img)) w1))"

text \<open>
  \<^verbatim>\<open>drawSvg\<close>.  A new canvas has the default size 300 by 150.  Inside the \<^verbatim>\<open>try\<close>:
  using a missing context throws, \<^verbatim>\<open>drawImage\<close> may throw, \<^verbatim>\<open>toBlob\<close> may throw; the
  \<^verbatim>\<open>catch\<close> reports \<open>CanvasDrawingFailed\<close>.  Otherwise the export is pending.
\<close>

definition drawSvg :: "host \<Rightarrow> closure \<Rightarrow> image \<Rightarrow> string \<Rightarrow> world \<Rightarrow> outcome \<times> world" where
  "drawSvg h c img fmt w =
     (let w1 = emit (Entered F_drawSvg) w;
          cv0 = \<lparr>canvas_width = Finite 300, canvas_height = Finite 150\<rparr>;
          (cv, w2) = setCanvasSize c cv0 (c_width c) (c_height c) img w1
      in if \<not> h_getContext h then failed c RasterError_CanvasDrawingFailed w2
         else
           let w3 = (if truthy (js_and (c_width c) (c_height c))
                     then emit (DrawImage5 (c_x c) (c_y c) (c_width c) (c_height c)) w2
                     else emit (DrawImage3 (c_x c) (c_y c)) w2)
           in if h_drawImage_throws h then failed c RasterError_CanvasDrawingFailed w3
              else
                let w4 = emit (ToBlobCalled fmt (c_quality c)) w3
                in if h_toBlob_throws h then failed c RasterError_CanvasDrawingFailed w4
                   else (Normal, w4\<lparr>pending := Some AwaitBlob\<rparr>))"

text \<open>\<^verbatim>\<open>processBlob\<close>: \<^verbatim>\<open>!blob\<close> holds for \<^verbatim>\<open>null\<close> only; any blob object is read.\<close>

definition processBlob :: "closure \<Rightarrow> byte list option \<Rightarrow> world \<Rightarrow> outcome \<times> world" where
  "processBlob c blob w =
     (let w1 = emit (Entered F_processBlob) w
      in case blob of
           None \<Rightarrow> failed c RasterError_BlobExportFailed w1
         | Some bytes \<Rightarrow> (Normal, w1\<lparr>pending := Some (AwaitArrayBuffer bytes)\<rparr>))"

text \<open>\<^verbatim>\<open>writeArrayToMemory(arr, on_heap)\<close> copies the array into the memory at \<open>on_heap\<close>.\<close>

definition writeArrayToMemory :: "byte list \<Rightarrow> addr \<Rightarrow> (addr \<Rightarrow> byte) \<Rightarrow> (addr \<Rightarrow> byte)" where
  "writeArrayToMemory arr on_heap mem =
     (\<lambda>p. if unat (p - on_heap) < length arr then arr ! unat (p - on_heap) else mem p)"

text \<open>
  \<^verbatim>\<open>loadImage\<close>: allocate, copy, call \<^verbatim>\<open>ExecCb\<close> in a \<^verbatim>\<open>try\<close>; an exception is
  answered with an alert; the \<^verbatim>\<open>finally\<close> frees the block in either case.
\<close>

definition loadImage :: "host \<Rightarrow> closure \<Rightarrow> byte list \<Rightarrow> world \<Rightarrow> outcome \<times> world" where
  "loadImage h c arr w =
     (let w1 = emit (Entered F_loadImage) w;
          on_heap = h_malloc h;
          w2 = emit (BufferAllocated on_heap (length arr)) (w1\<lparr>buffers := on_heap # buffers w1\<rparr>);
          w3 = w2\<lparr>memory := writeArrayToMemory arr on_heap (memory w2)\<rparr>;
          (out, w4) = ccall_ExecCb (c_pcb c) on_heap (length arr) RasterError_None (c_meta c) w3;
          w5 = (if out = Exception then emit Alerted w4 else w4);
          w6 = emit (BufferFreed on_heap) (w5\<lparr>buffers := remove1 on_heap (buffers w5)\<rparr>)
      in (if out = UndefinedBehaviour then UndefinedBehaviour else Normal, w6))"

text \<open>
  The body of \<^verbatim>\<open>aux::SvgToImage\<close>: encode, create the \<^verbatim>\<open><img>\<close>, assign its source
  and register the handlers.  It returns while the image is loading.
\<close>

definition aux_SvgToImage :: "host \<Rightarrow> closure \<Rightarrow> world \<Rightarrow> outcome \<times> world" where
  "aux_SvgToImage h c w =
     (case svgToDataUri h c (emit HostEntered w) of
        (Normal, Some data_uri, w1) \<Rightarrow>
          (Normal, (emit (ImgSrcAssigned data_uri) w1)\<lparr>pending := Some (AwaitImg (c_format c))\<rparr>)
      | (out, _, w1) \<Rightarrow> (out, w1))"

text \<open>
  One turn of the host's event loop: the pending request is answered and its handler
  runs.  \<^verbatim>\<open>img.onload\<close> is \<^verbatim>\<open>drawSvg\<close>, \<^verbatim>\<open>img.onerror\<close> reports \<open>ImgLoadingFailed\<close>;
  \<^verbatim>\<open>toBlob\<close> calls \<^verbatim>\<open>processBlob\<close>; the promise of \<^verbatim>\<open>arrayBuffer()\<close> calls
  \<^verbatim>\<open>loadImage\<close> or \<^verbatim>\<open>onRejected\<close>.  (The property \<^verbatim>\<open>img.error\<close> that the source
  also assigns is not an event handler; the host never calls it.)  An exception leaving a
  handler is reported by the host as uncaught.
\<close>

definition handler :: "host \<Rightarrow> closure \<Rightarrow> task \<Rightarrow> world \<Rightarrow> outcome \<times> world" where
  "handler h c t w =
     (case t of
        AwaitImg sformat \<Rightarrow>
          (case h_img h of
             Some img \<Rightarrow> drawSvg h c img sformat w
           | None \<Rightarrow> failed c RasterError_ImgLoadingFailed w)
      | AwaitBlob \<Rightarrow> processBlob c (h_toBlob h) w
      | AwaitArrayBuffer bytes \<Rightarrow>
          (if h_arrayBuffer h then loadImage h c bytes w
           else failed c RasterError_BlobExportFailed w))"

definition host_turn :: "host \<Rightarrow> closure \<Rightarrow> world \<Rightarrow> world" where
  "host_turn h c w =
     (case pending w of
        None \<Rightarrow> w
      | Some t \<Rightarrow>
          (case handler h c t (w\<lparr>pending := None\<rparr>) of
             (Normal, w1) \<Rightarrow> w1
           | (_, w1) \<Rightarrow> emit UncaughtException w1))"

text \<open>The requests still to be answered after a task, at most.\<close>

fun task_rank :: "task option \<Rightarrow> nat" where
  "task_rank None = 0"
| "task_rank (Some (AwaitArrayBuffer _)) = 1"
| "task_rank (Some AwaitBlob) = 2"
| "task_rank (Some (AwaitImg _)) = 3"

subsection \<open>\<^verbatim>\<open>raster::SvgToImage\<close>\<close>

text \<open>
  The closure of the JavaScript part for a request whose callback was copied to \<open>pcb\<close>.
\<close>

definition closure_of :: "request \<Rightarrow> addr \<Rightarrow> closure" where
  "closure_of r pcb =
     \<lparr>c_data = r_svg r, c_size = of_nat (length (r_svg r)), c_pcb = pcb, c_meta = r_meta r,
      c_format = r_format r, c_quality = r_quality r, c_x = r_x r, c_y = r_y r,
      c_width = r_width r, c_height = r_height r\<rparr>"

text \<open>
  \<^verbatim>\<open>raster::SvgToImage\<close>, up to its return: the fast path for missing input, else the
  copy of the callback and the call across the boundary.
\<close>

definition SvgToImage :: "host \<Rightarrow> request \<Rightarrow> world \<Rightarrow> outcome \<times> world" where
  "SvgToImage h r w =
     (if r_svg r = [] \<or> hd (r_svg r) = 0
      then
        (case r_cb r [] NoInputData (r_meta r) of
           Returns \<Rightarrow> (Normal, emit (CallbackInvoked [] NoInputData (r_meta r)) w)
         | Throws \<Rightarrow> (Exception, emit (CallbackInvoked [] NoInputData (r_meta r)) w))
      else
        let pcb = h_new h;
            w1 = emit (HandleCreated pcb) (w\<lparr>callbacks := (callbacks w)(pcb \<mapsto> r_cb r)\<rparr>)
        in aux_SvgToImage h (closure_of r pcb) w1)"

subsection \<open>A whole request\<close>

text \<open>The host answers pending requests until none is left.\<close>

function event_loop :: "host \<Rightarrow> closure \<Rightarrow> world \<Rightarrow> world" where
  "event_loop h c w = (if pending w = None then w else event_loop h c (host_turn h c w))"
  by pat_completeness auto

text \<open>
  A request from its issue to quiescence: \<^verbatim>\<open>raster::SvgToImage\<close> returns, then the host
  works through what the call left pending.
\<close>

definition run :: "host \<Rightarrow> request \<Rightarrow> world \<Rightarrow> world" where
  "run h r w = (case SvgToImage h r w of (out, w1) \<Rightarrow> event_loop h (closure_of r (h_new h)) w1)"

text \<open>The state before a request: nothing allocated, nothing pending, nothing observed.\<close>

definition initial :: "(addr \<Rightarrow> byte) \<Rightarrow> world" where
  "initial mem = \<lparr>memory = mem, buffers = [], callbacks = Map.empty, pending = None, trace = []\<rparr>"

subsection \<open>Reading a trace\<close>

text \<open>The calls of the client's callback, with their arguments.\<close>

fun invocation_of :: "event \<Rightarrow> (string_view \<times> Error \<times> addr) option" where
  "invocation_of (CallbackInvoked view err meta) = Some (view, err, meta)"
| "invocation_of _ = None"

definition invocations :: "event list \<Rightarrow> (string_view \<times> Error \<times> addr) list" where
  "invocations tr = List.map_filter invocation_of tr"

text \<open>The callback copies created by \<^verbatim>\<open>new\<close> and destroyed by \<^verbatim>\<open>delete\<close>.\<close>

fun handle_created :: "event \<Rightarrow> addr option" where
  "handle_created (HandleCreated p) = Some p"
| "handle_created _ = None"

fun handle_destroyed :: "event \<Rightarrow> addr option" where
  "handle_destroyed (HandleDestroyed p) = Some p"
| "handle_destroyed _ = None"

definition created :: "event list \<Rightarrow> addr list" where
  "created tr = List.map_filter handle_created tr"

definition destroyed :: "event list \<Rightarrow> addr list" where
  "destroyed tr = List.map_filter handle_destroyed tr"

text \<open>The blocks allocated by \<^verbatim>\<open>Module._malloc\<close>, with their sizes.\<close>

fun buffer_allocated :: "event \<Rightarrow> (addr \<times> nat) option" where
  "buffer_allocated (BufferAllocated a n) = Some (a, n)"
| "buffer_allocated _ = None"

definition allocated :: "event list \<Rightarrow> (addr \<times> nat) list" where
  "allocated tr = List.map_filter buffer_allocated tr"

text \<open>
  The stages of the rasterization, as the header names them: encoding the svg as a data
  uri, loading the data uri to the \<^verbatim>\<open><img>\<close>, drawing it on the canvas, extracting
  the blob.  A stage shows in the trace by its first action.
\<close>

datatype stage = Encoding | Loading | Drawing | Exporting

fun stage_of :: "event \<Rightarrow> stage option" where
  "stage_of (Entered F_svgToDataUri) = Some Encoding"
| "stage_of (ImgSrcAssigned _) = Some Loading"
| "stage_of (Entered F_drawSvg) = Some Drawing"
| "stage_of (ToBlobCalled _ _) = Some Exporting"
| "stage_of _ = None"

definition stages :: "event list \<Rightarrow> stage list" where
  "stages tr = List.map_filter stage_of tr"

text \<open>The terminal edges: the two places that call \<^verbatim>\<open>ExecCb\<close>.\<close>

definition terminal_edges :: "event list \<Rightarrow> event list" where
  "terminal_edges tr = filter (\<lambda>e. e = Entered F_failed \<or> e = Entered F_loadImage) tr"

text \<open>
  One delivery: exactly one terminal edge was taken, and the callback was called exactly
  once, with the metadata of the request and either no error or an empty view.
\<close>

definition delivered_once :: "addr \<Rightarrow> event list \<Rightarrow> bool" where
  "delivered_once meta evs =
     (length (terminal_edges evs) = 1 \<and>
      (case invocations evs of
         [(view, err, m)] \<Rightarrow> m = meta \<and> (err = None' \<or> view = [])
       | _ \<Rightarrow> False))"

text \<open>Stages come in the order of the pipeline, each at most once.\<close>

definition in_pipeline_order :: "stage list \<Rightarrow> bool" where
  "in_pipeline_order ss = (ss = take (length ss) [Encoding, Loading, Drawing, Exporting])"

text \<open>What was observed between an earlier state and a later one.\<close>

definition events_since :: "world \<Rightarrow> world \<Rightarrow> event list" where
  "events_since w w' = drop (length (trace w)) (trace w')"

text \<open>
  The events of a terminal edge in full: one edge, one call of the callback, no new
  handle, and the handle \<open>pcb\<close> destroyed exactly when that call returned.
\<close>

definition terminal_part :: "addr \<Rightarrow> addr \<Rightarrow> Callback \<Rightarrow> event list \<Rightarrow> bool" where
  "terminal_part pcb meta cb evs =
     (delivered_once meta evs \<and> created evs = [] \<and>
      destroyed evs =
        (case invocations evs of
           [(view, err, m)] \<Rightarrow> if cb view err m = Returns then [pcb] else []
         | _ \<Rightarrow> []))"

text \<open>The first events of \<^verbatim>\<open>drawSvg\<close>: the size given to the canvas, and the drawing call.\<close>

definition sized_event :: "closure \<Rightarrow> image \<Rightarrow> event" where
  "sized_event c img =
     (if truthy (js_and (c_width c) (c_height c)) then CanvasSized (c_width c) (c_height c)
      else CanvasSized (img_width img) (img_height img))"

definition drawn_event :: "closure \<Rightarrow> event" where
  "drawn_event c =
     (if truthy (js_and (c_width c) (c_height c))
      then DrawImage5 (c_x c) (c_y c) (c_width c) (c_height c)
      else DrawImage3 (c_x c) (c_y c))"

subsection \<open>Concrete requests and hosts\<close>

text \<open>
  A request with the default arguments of \<^verbatim>\<open>raster::SvgToImage\<close> for the markup
  \<^verbatim>\<open><svg/>\<close>, and a browser that decodes it to 300 by 150 pixels and exports the
  given blob.
\<close>

definition returning_callback :: Callback where
  "returning_callback img err meta = Returns"

definition throwing_callback :: Callback where
  "throwing_callback img err meta = Throws"

definition demo_request :: "Callback \<Rightarrow> request" where
  "demo_request cb =
     \<lparr>r_svg = [0x3C, 0x73, 0x76, 0x67, 0x2F, 0x3E], r_cb = cb, r_meta = 0,
      r_format = ''image/png'', r_quality = Finite 1, r_x = Finite 0, r_y = Finite 0,
      r_width = Finite 0, r_height = Finite 0\<rparr>"

definition demo_host :: "byte list option \<Rightarrow> host" where
  "demo_host blob =
     \<lparr>h_new = 0x1000, h_encodeURIComponent = (\<lambda>s. Some ''%3Csvg%2F%3E''),
      h_img = Some \<lparr>img_width = Finite 300, img_height = Finite 150\<rparr>,
      h_getContext = True, h_drawImage_throws = False, h_toBlob_throws = False,
      h_toBlob = blob, h_arrayBuffer = True, h_malloc = 0x2000\<rparr>"
section \<open>Properties of the helpers\<close>

subsection \<open>Hex formatting\<close>

lemma hex_value_hex_digit: "d < 16 \<Longrightarrow> hex_value (hex_digit d) = Some d"
proof -
  assume d: "d < 16"
  have "\<forall>k \<in> set [0..<16]. hex_value (hex_digit k) = Some k"
    by code_simp
  with d show ?thesis by simp
qed

lemma pair_value_format_02X:
  "pair_value (hex_digit (unat b div 16)) (hex_digit (unat b mod 16)) = Some (b::byte)"
proof -
  have "unat b < 256" using unsigned_less [of b, where 'a = nat] by simp
  then have d: "unat b div 16 < 16" by simp
  have m: "unat b mod 16 < 16" by simp
  have "(of_nat (16 * (unat b div 16) + unat b mod 16) :: byte) = of_nat (unat b)"
    by simp
  then show ?thesis
    by (simp add: pair_value_def hex_value_hex_digit [OF d] hex_value_hex_digit [OF m])
qed

lemma hex_pairs_Cons_not_Nil: "hex_pairs (b # bs) \<noteq> []"
  by (cases bs) (simp_all add: format_02X_def)

text \<open>Reading back what was formatted gives the bytes: the formatting loses nothing.\<close>

lemma read_hex_pairs_hex_pairs: "read_hex_pairs (hex_pairs bs) = Some bs"
proof (induction bs rule: hex_pairs.induct)
  case 1
  then show ?case by simp
next
  case (2 b)
  then show ?case by (simp add: format_02X_def pair_value_format_02X)
next
  case (3 b v va)
  then show ?case
    using hex_pairs_Cons_not_Nil [of v va]
    by (simp add: format_02X_def pair_value_format_02X)
qed

lemma hex_pairs_inject: "hex_pairs xs = hex_pairs ys \<longleftrightarrow> xs = ys"
  by (metis option.inject read_hex_pairs_hex_pairs)

text \<open>The stream \<^verbatim>\<open>out\<close> after the loop, and the header after \<^verbatim>\<open>pop_back\<close>.\<close>

lemma foldl_out:
  "foldl (\<lambda>out ch. out @ format_02X ch @ '' '') acc bs
     = acc @ concat (map (\<lambda>ch. format_02X ch @ '' '') bs)"
  by (induction bs arbitrary: acc) simp_all

lemma butlast_concat_pairs:
  "bs \<noteq> [] \<Longrightarrow> butlast (concat (map (\<lambda>ch. format_02X ch @ '' '') bs)) = hex_pairs bs"
proof (induction bs rule: hex_pairs.induct)
  case 1
  then show ?case by simp
next
  case (2 b)
  then show ?case by (simp add: butlast_append)
next
  case (3 b v va)
  then show ?case by (simp add: butlast_append format_02X_def)
qed

lemma concat_pairs_Nil: "concat (map (\<lambda>ch. format_02X ch @ '' '') bs) = [] \<longleftrightarrow> bs = []"
  by (cases bs) simp_all

lemma header_of_out:
  "(let out = foldl (\<lambda>out ch. out @ format_02X ch @ '' '') [] bs;
        header = (if out \<noteq> [] then butlast out else out)
    in header) = hex_pairs bs"
  by (cases "bs = []") (simp_all add: foldl_out butlast_concat_pairs concat_pairs_Nil Let_def)

subsection \<open>\<^verbatim>\<open>GetImageHeader\<close>\<close>

lemma range_between_clip:
  assumes "unat data + length img < 2 ^ 32" and "unat data + unat pos + unat n < 2 ^ 32"
  shows "min (data + pos) (data + of_nat (length img))
           \<le> min (data + pos + n) (data + of_nat (length img))"
    and "\<not> min (data + pos) (data + of_nat (length img)) < data"
    and "range_between img (min (data + pos) (data + of_nat (length img)) - data)
           (min (data + pos + n) (data + of_nat (length img)) - data)
         = clipped img (unat pos) (unat n)"
proof -
  let ?E = "data + of_nat (length img) :: size_t"
  let ?b = "min (data + pos) ?E" and ?e = "min (data + pos + n) ?E"
  have uL: "unat (of_nat (length img) :: size_t) = length img"
    using assms(1) by (simp add: unat_of_nat)
  have uE: "unat ?E = unat data + length img"
    using assms(1) uL by (simp add: unat_add_lem [THEN iffD1])
  have up: "unat (data + pos) = unat data + unat pos"
    using assms(2) by (simp add: unat_add_lem [THEN iffD1])
  have upn: "unat (data + pos + n) = unat data + unat pos + unat n"
    using assms(2) up by (simp add: unat_add_lem [THEN iffD1])
  have ub: "unat ?b = unat data + min (unat pos) (length img)"
    by (simp add: min_def word_le_nat_alt uE up)
  have ue: "unat ?e = unat data + min (unat pos + unat n) (length img)"
    by (simp add: min_def word_le_nat_alt uE upn)
  show "?b \<le> ?e"
    by (simp add: word_le_nat_alt ub ue)
  show ge: "\<not> ?b < data"
    by (simp add: word_less_nat_alt ub)
  have db: "data \<le> ?b" by (simp add: word_le_nat_alt ub)
  have de: "data \<le> ?e" by (simp add: word_le_nat_alt ue)
  have sb: "unat (?b - data) = min (unat pos) (length img)"
    using db by (simp add: unat_sub ub)
  have se: "unat (?e - data) = min (unat pos + unat n) (length img)"
    using de by (simp add: unat_sub ue)
  show "range_between img (?b - data) (?e - data) = clipped img (unat pos) (unat n)"
    unfolding range_between_def clipped_def sb se
    by (cases "unat pos \<le> length img") (simp_all add: min_def)
qed

lemma GetImageHeader_no_wrap:
  assumes "unat data + length img < 2 ^ 32" and "unat data + unat pos + unat n < 2 ^ 32"
  shows "GetImageHeader data img pos n = Inr (hex_pairs (clipped img (unat pos) (unat n)))"
proof -
  note rb = range_between_clip [OF assms]
  have "GetImageHeader data img pos n =
      Inr (let out = foldl (\<lambda>out ch. out @ format_02X ch @ '' '') []
                       (clipped img (unat pos) (unat n));
               header = (if out \<noteq> [] then butlast out else out)
           in header)"
    unfolding GetImageHeader_def Let_def using rb by simp
  then show ?thesis by (simp only: header_of_out)
qed

lemma length_clipped: "length (clipped img pos n) = min n (length img - pos)"
  by (simp add: clipped_def)

text \<open>
  Where the code is right: while \<open>data + pos + n\<close> stays inside the address space,
  \<^verbatim>\<open>GetImageHeader\<close> returns the bytes of \<open>[pos, pos + n)\<close> clipped to the buffer at
  both ends, as upper-case two-digit hex pairs with exactly one space between two pairs
  and none at either end (the reader of that format accepts the result and gives the
  clipped bytes back); the number of pairs is \<open>min n (len img - pos)\<close>, and
  \<open>pos \<ge> len img\<close> gives the empty string.
\<close>

lemma GetImageHeader_within_address_space:
  assumes "unat data + length img < 2 ^ 32" and "unat data + unat pos + unat n < 2 ^ 32"
  shows "GetImageHeader data img pos n = Inr (hex_pairs (clipped img (unat pos) (unat n)))
       \<and> read_hex_pairs (hex_pairs (clipped img (unat pos) (unat n)))
           = Some (clipped img (unat pos) (unat n))
       \<and> length (clipped img (unat pos) (unat n)) = min (unat n) (length img - unat pos)
       \<and> (length img \<le> unat pos \<longrightarrow> GetImageHeader data img pos n = Inr [])"
proof -
  have h: "GetImageHeader data img pos n = Inr (hex_pairs (clipped img (unat pos) (unat n)))"
    by (rule GetImageHeader_no_wrap [OF assms])
  have e: "length img \<le> unat pos \<Longrightarrow> clipped img (unat pos) (unat n) = []"
    by (simp add: clipped_def)
  show ?thesis
    using h e by (simp add: read_hex_pairs_hex_pairs length_clipped)
qed

text \<open>
  Claim C5 on the code, for a view of four bytes at address \<open>0x2000\<close>.  The code means to
  clip the range at both ends, but clips addresses that have wrapped around.  With
  \<open>pos = 0\<close> and \<open>n = SIZE_MAX\<close> the end iterator is \<open>cbegin - 1\<close>, before the begin
  iterator, and the \<^verbatim>\<open>assert\<close> fails, where the claim promises all four pairs.  With
  \<open>pos = 0xFFFFFFF0\<close> and \<open>n = 8\<close> the range is \<open>[cbegin - 16, cbegin - 8)\<close> and the
  loop reads eight bytes before the view, where the claim promises the empty string.
\<close>

theorem GetImageHeader_address_wrap_around:
  "GetImageHeader 0x2000 [0x89, 0x50, 0x4E, 0x47] 0 0xFFFFFFFF
     = Inl (AssertionFailed ''Wrong header range [raster::GetImageHeader()]'')
   \<and> hex_pairs (clipped [0x89, 0x50, 0x4E, 0x47] (unat (0 :: size_t)) (unat (0xFFFFFFFF :: size_t)))
       = ''89 50 4E 47''
   \<and> GetImageHeader 0x2000 [0x89, 0x50, 0x4E, 0x47] 0xFFFFFFF0 8 = Inl OutOfBoundsRead
   \<and> hex_pairs (clipped [0x89, 0x50, 0x4E, 0x47] (unat (0xFFFFFFF0 :: size_t)) (unat (8 :: size_t)))
       = ''''"
proof -
  have s: "(0x2000::size_t) + 0 + 0xFFFFFFFF = 0x1FFF" "(0x2000::size_t) + 0 = 0x2000"
    "(0x2000::size_t) + 0xFFFFFFF0 = 0x1FF0" "(0x2000::size_t) + 0xFFFFFFF0 + 8 = 0x1FF8"
    by simp_all
  have a: "GetImageHeader 0x2000 [0x89, 0x50, 0x4E, 0x47] 0 0xFFFFFFFF
     = Inl (AssertionFailed ''Wrong header range [raster::GetImageHeader()]'')"
    unfolding GetImageHeader_def s by simp
  have b: "GetImageHeader 0x2000 [0x89, 0x50, 0x4E, 0x47] 0xFFFFFFF0 8 = Inl OutOfBoundsRead"
    unfolding GetImageHeader_def s by simp
  have c: "hex_pairs (clipped [0x89, 0x50, 0x4E, 0x47] (unat (0 :: size_t)) (unat (0xFFFFFFFF :: size_t)))
       = ''89 50 4E 47''"
    by (simp add: clipped_def format_02X_def hex_digit_def)
  have d: "hex_pairs (clipped [0x89, 0x50, 0x4E, 0x47] (unat (0xFFFFFFF0 :: size_t)) (unat (8 :: size_t)))
       = ''''"
    by (simp add: clipped_def)
  from a b c d show ?thesis by simp
qed

subsection \<open>\<^verbatim>\<open>GetImageFormat\<close>\<close>

lemma sig_hex_pairs:
  "png_sig = hex_pairs PNG_MAGIC" "jpeg_sig = hex_pairs JPEG_MAGIC"
  "riff_sig = hex_pairs RIFF_MAGIC" "webp_sig = hex_pairs WEBP_MAGIC"
  by (simp_all add: png_sig_def jpeg_sig_def riff_sig_def webp_sig_def PNG_MAGIC_def
      JPEG_MAGIC_def RIFF_MAGIC_def WEBP_MAGIC_def format_02X_def hex_digit_def)

lemma magic_lengths:
  "length PNG_MAGIC = 8" "length JPEG_MAGIC = 2" "length RIFF_MAGIC = 4" "length WEBP_MAGIC = 4"
  by (simp_all add: PNG_MAGIC_def JPEG_MAGIC_def RIFF_MAGIC_def WEBP_MAGIC_def)

lemma clipped_eq_signature_at:
  "length sig = n \<Longrightarrow> (clipped img off n = sig) = signature_at img off sig"
  by (auto simp: clipped_def signature_at_def)

text \<open>
  The four calls of \<^verbatim>\<open>GetImageHeader\<close> reach at most 12 bytes beyond \<open>data\<close>, so they
  stay inside the address space for every view that does not begin in its last 12 bytes.
\<close>

lemma GetImageFormat_signature_format:
  assumes "unat data + length img < 2 ^ 32" and "unat data + 12 < 2 ^ 32"
  shows "GetImageFormat data img = Inr (signature_format img)"
proof -
  have p: "GetImageHeader data img 0 8 = Inr (hex_pairs (clipped img 0 8))"
    using GetImageHeader_no_wrap [OF assms(1), of 0 8] assms(2) by simp
  have j: "GetImageHeader data img 0 2 = Inr (hex_pairs (clipped img 0 2))"
    using GetImageHeader_no_wrap [OF assms(1), of 0 2] assms(2) by simp
  have r: "GetImageHeader data img 0 4 = Inr (hex_pairs (clipped img 0 4))"
    using GetImageHeader_no_wrap [OF assms(1), of 0 4] assms(2) by simp
  have w: "GetImageHeader data img 8 4 = Inr (hex_pairs (clipped img 8 4))"
    using GetImageHeader_no_wrap [OF assms(1), of 8 4] assms(2) by simp
  show ?thesis
    unfolding GetImageFormat_def p j r w sig_hex_pairs signature_format_def
    by (simp add: hex_pairs_inject clipped_eq_signature_at magic_lengths)
qed

lemma signature_at_agree:
  assumes "signature_at img 0 A" and "signature_at img 0 B" and "length B \<le> length A"
  shows "take (length B) A = B"
proof -
  have "take (length B) A = take (length B) (take (length A) img)"
    using assms(1) by (simp add: signature_at_def)
  also have "\<dots> = take (length B) img"
    using assms(3) by (simp add: min_def)
  also have "\<dots> = B"
    using assms(2) by (simp add: signature_at_def)
  finally show ?thesis .
qed

lemma png_not_jpeg: "signature_at img 0 PNG_MAGIC \<Longrightarrow> \<not> signature_at img 0 JPEG_MAGIC"
  using signature_at_agree [of img PNG_MAGIC JPEG_MAGIC]
  by (auto simp: PNG_MAGIC_def JPEG_MAGIC_def)

lemma png_not_riff: "signature_at img 0 PNG_MAGIC \<Longrightarrow> \<not> signature_at img 0 RIFF_MAGIC"
  using signature_at_agree [of img PNG_MAGIC RIFF_MAGIC]
  by (auto simp: PNG_MAGIC_def RIFF_MAGIC_def)

lemma jpeg_not_riff: "signature_at img 0 JPEG_MAGIC \<Longrightarrow> \<not> signature_at img 0 RIFF_MAGIC"
  using signature_at_agree [of img RIFF_MAGIC JPEG_MAGIC]
  by (auto simp: JPEG_MAGIC_def RIFF_MAGIC_def)

text \<open>
  Claim C6.  For every byte buffer, at whatever address \<open>data\<close> it lies (the buffer and
  the 12 bytes from \<open>data\<close> on being inside the address space, as for every buffer an
  allocator hands out; at \<open>data = 0\<close> this only says that the length fits
  \<^verbatim>\<open>std::size_t\<close>), \<^verbatim>\<open>GetImageFormat\<close> returns \<open>Png\<close> iff the 8-byte PNG magic is at
  offset 0, \<open>Jpeg\<close> iff the 2-byte JPEG magic is at offset 0, \<open>Webp\<close> iff \<open>RIFF\<close> is at
  offset 0 and \<open>WEBP\<close> at offset 8, and \<open>Unknown\<close> otherwise; it always returns a
  format (its calls of \<^verbatim>\<open>GetImageHeader\<close> never fail), and the empty buffer is
  \<open>Unknown\<close>.
\<close>

theorem GetImageFormat_iff_signature:
  assumes "unat data + length img < 2 ^ 32" and "unat data + 12 < 2 ^ 32"
  shows "(GetImageFormat data img = Inr Png \<longleftrightarrow> signature_at img 0 PNG_MAGIC)
       \<and> (GetImageFormat data img = Inr Jpeg \<longleftrightarrow> signature_at img 0 JPEG_MAGIC)
       \<and> (GetImageFormat data img = Inr Webp \<longleftrightarrow>
            signature_at img 0 RIFF_MAGIC \<and> signature_at img 8 WEBP_MAGIC)
       \<and> (GetImageFormat data img = Inr Unknown \<longleftrightarrow>
            \<not> signature_at img 0 PNG_MAGIC \<and> \<not> signature_at img 0 JPEG_MAGIC
            \<and> \<not> (signature_at img 0 RIFF_MAGIC \<and> signature_at img 8 WEBP_MAGIC))
       \<and> (\<exists>fmt. GetImageFormat data img = Inr fmt)
       \<and> GetImageFormat data [] = Inr Unknown"
proof -
  have e: "GetImageFormat data [] = Inr Unknown"
    using GetImageFormat_signature_format [of data "[]"] assms(2)
    by (simp add: signature_format_def signature_at_def PNG_MAGIC_def JPEG_MAGIC_def RIFF_MAGIC_def)
  show ?thesis
    unfolding GetImageFormat_signature_format [OF assms] e
    using png_not_jpeg [of img] png_not_riff [of img] jpeg_not_riff [of img]
    by (auto simp: signature_format_def)
qed

theorem GetImageFormat_iff_signature_witness:
  "GetImageFormat 0x2000 [0x52, 0x49, 0x46, 0x46, 0x1A, 0, 0, 0, 0x57, 0x45, 0x42, 0x50, 0x56]
     = Inr Webp
   \<and> GetImageFormat 0 [0xFF, 0xD8, 0xFF] = Inr Jpeg
   \<and> GetImageFormat 0x2000 [0x89, 0x50, 0x4E, 0x47, 0x0D, 0x0A, 0x1A, 0x0A, 0] = Inr Png
   \<and> GetImageFormat 0xFFFF0000 [0x47, 0x49, 0x46] = Inr Unknown
   \<and> GetImageFormat 0 [] = Inr Unknown"
  using GetImageFormat_iff_signature
      [of "0x2000" "[0x52, 0x49, 0x46, 0x46, 0x1A, 0, 0, 0, 0x57, 0x45, 0x42, 0x50, 0x56]"]
    GetImageFormat_iff_signature [of 0 "[0xFF, 0xD8, 0xFF]"]
    GetImageFormat_iff_signature
      [of "0x2000" "[0x89, 0x50, 0x4E, 0x47, 0x0D, 0x0A, 0x1A, 0x0A, 0]"]
    GetImageFormat_iff_signature [of "0xFFFF0000" "[0x47, 0x49, 0x46]"]
  by (simp add: signature_at_def PNG_MAGIC_def JPEG_MAGIC_def RIFF_MAGIC_def WEBP_MAGIC_def)

lemma signature_at_take:
  "off + length sig \<le> k \<Longrightarrow> signature_at (take k img) off sig = signature_at img off sig"
  by (simp add: signature_at_def drop_take min_def)

lemma signature_format_take12: "signature_format (take 12 img) = signature_format img"
  by (simp add: signature_format_def signature_at_take magic_lengths)

text \<open>
  Claim C10.  Two byte buffers of length at least 12 that agree on their first 12 bytes
  get the same format, wherever the two lie in the address space: \<^verbatim>\<open>GetImageFormat\<close>
  reads offsets 0 to 11 only.
\<close>

theorem GetImageFormat_first_12_bytes:
  assumes "12 \<le> length a" and "12 \<le> length b" and "take 12 a = take 12 b"
    and "unat data_a + length a < 2 ^ 32" and "unat data_b + length b < 2 ^ 32"
  shows "GetImageFormat data_a a = GetImageFormat data_b b"
proof -
  have "signature_format a = signature_format (take 12 a)"
    by (simp only: signature_format_take12)
  also have "\<dots> = signature_format (take 12 b)"
    by (simp only: assms(3))
  also have "\<dots> = signature_format b"
    by (simp only: signature_format_take12)
  finally have eq: "signature_format a = signature_format b" .
  have "unat data_a + 12 < 2 ^ 32" and "unat data_b + 12 < 2 ^ 32"
    using assms(1,2,4,5) by simp_all
  then show ?thesis
    using eq GetImageFormat_signature_format [OF assms(4)]
      GetImageFormat_signature_format [OF assms(5)] by simp
qed

theorem GetImageFormat_first_12_bytes_witness:
  "GetImageFormat 0x2000
      [0x52, 0x49, 0x46, 0x46, 0x1A, 0, 0, 0, 0x57, 0x45, 0x42, 0x50, 0x56, 0x50]
     = GetImageFormat 0x3000 [0x52, 0x49, 0x46, 0x46, 0x1A, 0, 0, 0, 0x57, 0x45, 0x42, 0x50, 0x4C]"
  using GetImageFormat_first_12_bytes
    [of "[0x52, 0x49, 0x46, 0x46, 0x1A, 0, 0, 0, 0x57, 0x45, 0x42, 0x50, 0x56, 0x50]"
        "[0x52, 0x49, 0x46, 0x46, 0x1A, 0, 0, 0, 0x57, 0x45, 0x42, 0x50, 0x4C]"
        "0x2000" "0x3000"]
  by simp

section \<open>Properties of the pipeline\<close>

subsection \<open>The host's work ends\<close>

lemma pending_ExecCb: "pending (snd (ExecCb pcb data sz err meta w)) = pending w"
  by (simp add: ExecCb_def emit_def Let_def split: option.splits cb_outcome.splits)

lemma pending_failed: "pending (snd (failed c err w)) = pending w"
  by (simp add: failed_def ccall_ExecCb_def pending_ExecCb emit_def split: option.splits)

lemma pending_loadImage: "pending (snd (loadImage h c arr w)) = pending w"
  using pending_ExecCb [of "c_pcb c" "h_malloc h" "of_nat (length arr)"]
  by (simp add: loadImage_def ccall_ExecCb_def emit_def Let_def split_beta
      split: option.splits)

lemma pending_processBlob:
  "pending w = None \<Longrightarrow> task_rank (pending (snd (processBlob c blob w))) \<le> 1"
  by (simp add: processBlob_def pending_failed emit_def Let_def split: option.splits)

lemma pending_drawSvg:
  "pending w = None \<Longrightarrow> task_rank (pending (snd (drawSvg h c img fmt w))) \<le> 2"
  by (simp add: drawSvg_def setCanvasSize_def pending_failed emit_def Let_def)

lemma task_rank_handler:
  "pending w = None \<Longrightarrow> task_rank (pending (snd (handler h c t w))) < task_rank (Some t)"
  using pending_drawSvg [of w h c] pending_processBlob [of w c "h_toBlob h"]
  by (cases t) (auto simp: handler_def pending_failed pending_loadImage
      le_imp_less_Suc numeral_3_eq_3 numeral_2_eq_2 split: option.splits)

lemma task_rank_host_turn:
  "pending w = Some t \<Longrightarrow> task_rank (pending (host_turn h c w)) < task_rank (pending w)"
  using task_rank_handler [of "w\<lparr>pending := None\<rparr>" h c t]
  by (auto simp: host_turn_def emit_def split: prod.splits outcome.splits)

termination event_loop
proof (relation "measure (\<lambda>(h, c, w). task_rank (pending w))")
  show "wf (measure (\<lambda>(h, c, w). task_rank (pending w)))"
    by simp
next
  fix h :: host and c :: closure and w :: world
  assume "pending w \<noteq> None"
  then obtain t where "pending w = Some t"
    by auto
  then show "((h, c, host_turn h c w), (h, c, w)) \<in> measure (\<lambda>(h, c, w). task_rank (pending w))"
    using task_rank_host_turn [of w t h c] by simp
qed

subsection \<open>Reading traces\<close>

lemma event_loop_None: "pending w = None \<Longrightarrow> event_loop h c w = w"
  by simp

lemma event_loop_Some: "pending w = Some t \<Longrightarrow> event_loop h c w = event_loop h c (host_turn h c w)"
  by (subst event_loop.simps) simp

declare event_loop.simps [simp del]

lemma emit_simps [simp]:
  "trace (emit e w) = trace w @ [e]"
  "pending (emit e w) = pending w"
  "callbacks (emit e w) = callbacks w"
  "buffers (emit e w) = buffers w"
  "memory (emit e w) = memory w"
  by (simp_all add: emit_def)

lemmas Error_of_int_simps =
  Error_of_int_def RasterError_None_def RasterError_UriEncodingFailed_def
  RasterError_ImgLoadingFailed_def RasterError_CanvasDrawingFailed_def
  RasterError_BlobExportFailed_def

lemma trace_readers_append [simp]:
  "invocations (xs @ ys) = invocations xs @ invocations ys"
  "stages (xs @ ys) = stages xs @ stages ys"
  "terminal_edges (xs @ ys) = terminal_edges xs @ terminal_edges ys"
  "created (xs @ ys) = created xs @ created ys"
  "destroyed (xs @ ys) = destroyed xs @ destroyed ys"
  "allocated (xs @ ys) = allocated xs @ allocated ys"
  by (simp_all add: invocations_def stages_def terminal_edges_def created_def destroyed_def
      allocated_def List.map_filter_def)

lemma trace_readers_Nil [simp]:
  "invocations [] = []" "stages [] = []" "terminal_edges [] = []"
  "created [] = []" "destroyed [] = []" "allocated [] = []"
  by (simp_all add: invocations_def stages_def terminal_edges_def created_def destroyed_def
      allocated_def List.map_filter_def)

lemma trace_readers_Cons [simp]:
  "invocations (e # xs) = (case invocation_of e of None \<Rightarrow> invocations xs | Some i \<Rightarrow> i # invocations xs)"
  "stages (e # xs) = (case stage_of e of None \<Rightarrow> stages xs | Some s \<Rightarrow> s # stages xs)"
  "terminal_edges (e # xs) =
     (if e = Entered F_failed \<or> e = Entered F_loadImage then e # terminal_edges xs
      else terminal_edges xs)"
  "created (e # xs) = (case handle_created e of None \<Rightarrow> created xs | Some p \<Rightarrow> p # created xs)"
  "destroyed (e # xs) =
     (case handle_destroyed e of None \<Rightarrow> destroyed xs | Some p \<Rightarrow> p # destroyed xs)"
  "allocated (e # xs) =
     (case buffer_allocated e of None \<Rightarrow> allocated xs | Some b \<Rightarrow> b # allocated xs)"
  by (simp_all add: invocations_def stages_def terminal_edges_def created_def destroyed_def
      allocated_def List.map_filter_def split: option.split)

lemma events_since_append: "trace w' = trace w @ evs \<Longrightarrow> events_since w w' = evs"
  by (simp add: events_since_def)

lemma first_events [simp]:
  "invocation_of (sized_event c img) = None" "invocation_of (drawn_event c) = None"
  "stage_of (sized_event c img) = None" "stage_of (drawn_event c) = None"
  "sized_event c img \<noteq> Entered f" "drawn_event c \<noteq> Entered f"
  "handle_created (sized_event c img) = None" "handle_created (drawn_event c) = None"
  "handle_destroyed (sized_event c img) = None" "handle_destroyed (drawn_event c) = None"
  "buffer_allocated (sized_event c img) = None" "buffer_allocated (drawn_event c) = None"
  by (simp_all add: sized_event_def drawn_event_def)


lemma terminal_part_neutral_prefix:
  "invocations pre = [] \<Longrightarrow> terminal_edges pre = [] \<Longrightarrow> created pre = [] \<Longrightarrow>
   destroyed pre = [] \<Longrightarrow>
   terminal_part pcb meta cb (pre @ evs) = terminal_part pcb meta cb evs"
  by (simp add: terminal_part_def delivered_once_def)

lemma terminal_part_snoc_Uncaught [simp]:
  "terminal_part pcb meta cb (evs @ [UncaughtException]) = terminal_part pcb meta cb evs"
  by (simp add: terminal_part_def delivered_once_def)

subsection \<open>The terminal edges\<close>

lemma ExecCb_live:
  assumes "callbacks w pcb = Some cb"
  shows "ExecCb pcb data sz err meta w =
     (let view = (if data \<noteq> 0 \<and> sz > 0 then view_at (memory w) data sz else []);
          w1 = emit (CallbackInvoked view err meta) w
      in if cb view err meta = Returns
         then (Normal, emit (HandleDestroyed pcb) (w1\<lparr>callbacks := (callbacks w1)(pcb := None)\<rparr>))
         else (Exception, w1))"
  using assms by (simp add: ExecCb_def Let_def split: cb_outcome.split)

lemma failed_live:
  assumes "callbacks w (c_pcb c) = Some cb" and "Error_of_int e = Some err"
  shows "failed c e w =
     (let w1 = emit (CallbackInvoked [] err (c_meta c)) (emit (Entered F_failed) w)
      in if cb [] err (c_meta c) = Returns
         then (Normal, emit (HandleDestroyed (c_pcb c))
                         (w1\<lparr>callbacks := (callbacks w)(c_pcb c := None)\<rparr>))
         else (Exception, w1))"
  using assms by (simp add: failed_def ccall_ExecCb_def ExecCb_live Let_def)

lemma failed_trace:
  assumes "callbacks w (c_pcb c) = Some cb" and "Error_of_int e = Some err"
  shows "trace (snd (failed c e w)) =
           trace w @ [Entered F_failed, CallbackInvoked [] err (c_meta c)]
             @ (if cb [] err (c_meta c) = Returns then [HandleDestroyed (c_pcb c)] else [])"
    and "pending (snd (failed c e w)) = pending w"
    and "fst (failed c e w) = (if cb [] err (c_meta c) = Returns then Normal else Exception)"
    and "callbacks (snd (failed c e w)) (c_pcb c)
           = (if cb [] err (c_meta c) = Returns then None else Some cb)"
    and "buffers (snd (failed c e w)) = buffers w"
  using assms by (simp_all add: failed_live Let_def)

text \<open>The view that \<^verbatim>\<open>loadImage\<close> hands over: the block just written, if there is one.\<close>

lemma loadImage_live:
  assumes "callbacks w (c_pcb c) = Some cb"
    and "view = (if h_malloc h \<noteq> 0 \<and> (of_nat (length arr) :: size_t) > 0
                 then view_at (writeArrayToMemory arr (h_malloc h) (memory w)) (h_malloc h)
                        (of_nat (length arr))
                 else [])"
  shows "trace (snd (loadImage h c arr w)) = trace w @
          [Entered F_loadImage, BufferAllocated (h_malloc h) (length arr),
           CallbackInvoked view None' (c_meta c)]
          @ (if cb view None' (c_meta c) = Returns then [HandleDestroyed (c_pcb c)] else [Alerted])
          @ [BufferFreed (h_malloc h)]"
    and "pending (snd (loadImage h c arr w)) = pending w"
    and "fst (loadImage h c arr w) = Normal"
    and "buffers (snd (loadImage h c arr w)) = remove1 (h_malloc h) (h_malloc h # buffers w)"
    and "callbacks (snd (loadImage h c arr w)) (c_pcb c)
           = (if cb view None' (c_meta c) = Returns then None else Some cb)"
  using assms
  by (simp_all add: loadImage_def ccall_ExecCb_def Error_of_int_simps ExecCb_live Let_def split_beta)

lemma failed_delivers:
  assumes "callbacks w (c_pcb c) = Some cb" and "Error_of_int e = Some err"
  shows "\<exists>evs. trace (snd (failed c e w)) = trace w @ evs
           \<and> terminal_part (c_pcb c) (c_meta c) cb evs
           \<and> stages evs = [] \<and> pending (snd (failed c e w)) = pending w"
  using assms by (simp add: failed_trace terminal_part_def delivered_once_def)

lemma loadImage_delivers:
  assumes "callbacks w (c_pcb c) = Some cb"
  shows "\<exists>evs. trace (snd (loadImage h c arr w)) = trace w @ evs
           \<and> terminal_part (c_pcb c) (c_meta c) cb evs
           \<and> stages evs = [] \<and> pending (snd (loadImage h c arr w)) = pending w
           \<and> fst (loadImage h c arr w) = Normal"
  using loadImage_live [OF assms refl, of h arr] by (simp add: terminal_part_def delivered_once_def)

lemma failed_after:
  assumes "callbacks w' (c_pcb c) = Some cb" and "Error_of_int e = Some err"
    and "trace w' = trace w @ pre" and "invocations pre = []" and "terminal_edges pre = []"
    and "created pre = []" and "destroyed pre = []" and "pending w' = None"
  shows "\<exists>evs. trace (snd (failed c e w')) = trace w @ evs
           \<and> terminal_part (c_pcb c) (c_meta c) cb evs
           \<and> stages evs = stages pre \<and> pending (snd (failed c e w')) = None"
proof -
  from failed_delivers [OF assms(1,2)]
  obtain evs where evs: "trace (snd (failed c e w')) = trace w' @ evs"
    "terminal_part (c_pcb c) (c_meta c) cb evs" "stages evs = []"
    "pending (snd (failed c e w')) = pending w'"
    by auto
  have "trace (snd (failed c e w')) = trace w @ (pre @ evs)"
    using evs(1) assms(3) by simp
  moreover have "terminal_part (c_pcb c) (c_meta c) cb (pre @ evs)"
    using evs(2) assms(4-7) by (simp add: terminal_part_neutral_prefix)
  moreover have "stages (pre @ evs) = stages pre"
    using evs(3) by simp
  ultimately show ?thesis
    using evs(4) assms(8) by metis
qed

subsection \<open>The turns of the host\<close>

lemma host_turn_Some:
  "pending w = Some t \<Longrightarrow>
   host_turn h c w = (case handler h c t (w\<lparr>pending := None\<rparr>) of
                        (Normal, w1) \<Rightarrow> w1 | (_, w1) \<Rightarrow> emit UncaughtException w1)"
  by (simp add: host_turn_def)

text \<open>A handler that takes a terminal edge ends the work of the host.\<close>

lemma host_turn_terminal:
  assumes "pending w = Some t"
    and "\<exists>evs. trace (snd (handler h c t (w\<lparr>pending := None\<rparr>))) = trace w @ evs
           \<and> terminal_part (c_pcb c) (c_meta c) cb evs \<and> stages evs = ss
           \<and> pending (snd (handler h c t (w\<lparr>pending := None\<rparr>))) = None"
  shows "\<exists>evs. trace (event_loop h c w) = trace w @ evs
           \<and> terminal_part (c_pcb c) (c_meta c) cb evs
           \<and> stages evs = ss \<and> pending (event_loop h c w) = None"
proof -
  obtain out w1 where hw: "handler h c t (w\<lparr>pending := None\<rparr>) = (out, w1)"
    by (cases "handler h c t (w\<lparr>pending := None\<rparr>)")
  from assms(2) hw obtain evs where evs: "trace w1 = trace w @ evs"
    "terminal_part (c_pcb c) (c_meta c) cb evs" "stages evs = ss" "pending w1 = None"
    by auto
  have ht: "host_turn h c w = (if out = Normal then w1 else emit UncaughtException w1)"
    using assms(1) hw by (simp add: host_turn_Some split: outcome.split)
  have p: "pending (host_turn h c w) = None"
    using evs(4) by (simp add: ht)
  have el: "event_loop h c w = host_turn h c w"
    using assms(1) p by (simp add: event_loop_Some event_loop_None)
  show ?thesis
  proof (cases "out = Normal")
    case True
    then show ?thesis using evs el ht by simp
  next
    case False
    then have "trace (event_loop h c w) = trace w @ (evs @ [UncaughtException])"
      using evs el ht by simp
    moreover have "terminal_part (c_pcb c) (c_meta c) cb (evs @ [UncaughtException])"
      using evs(2) by simp
    moreover have "stages (evs @ [UncaughtException]) = ss"
      using evs(3) by simp
    ultimately show ?thesis using el p by metis
  qed
qed

text \<open>A handler that leaves the next request pending hands over to the next turn.\<close>

lemma host_turn_continues:
  assumes "pending w = Some t"
    and "handler h c t (w\<lparr>pending := None\<rparr>) = (Normal, w1)"
    and "trace w1 = trace w @ pre" and "invocations pre = []" and "terminal_edges pre = []"
    and "created pre = []" and "destroyed pre = []"
    and "\<exists>evs. trace (event_loop h c w1) = trace w1 @ evs
           \<and> terminal_part (c_pcb c) (c_meta c) cb evs
           \<and> stages evs = ss \<and> pending (event_loop h c w1) = None"
  shows "\<exists>evs. trace (event_loop h c w) = trace w @ evs
           \<and> terminal_part (c_pcb c) (c_meta c) cb evs
           \<and> stages evs = stages pre @ ss \<and> pending (event_loop h c w) = None"
proof -
  have ht: "host_turn h c w = w1"
    using assms(1,2) by (simp add: host_turn_Some)
  have el: "event_loop h c w = event_loop h c w1"
    using assms(1) ht by (simp add: event_loop_Some)
  from assms(8) obtain evs where evs: "trace (event_loop h c w1) = trace w1 @ evs"
    "terminal_part (c_pcb c) (c_meta c) cb evs" "stages evs = ss"
    "pending (event_loop h c w1) = None"
    by auto
  have "trace (event_loop h c w) = trace w @ (pre @ evs)"
    using evs(1) assms(3) el by simp
  moreover have "terminal_part (c_pcb c) (c_meta c) cb (pre @ evs)"
    using evs(2) assms(4-7) by (simp add: terminal_part_neutral_prefix)
  moreover have "stages (pre @ evs) = stages pre @ ss"
    using evs(3) by simp
  ultimately show ?thesis
    using evs(4) el by metis
qed

lemma tail_AwaitArrayBuffer:
  assumes "callbacks w (c_pcb c) = Some cb" and "pending w = Some (AwaitArrayBuffer bytes)"
  shows "\<exists>evs. trace (event_loop h c w) = trace w @ evs
           \<and> terminal_part (c_pcb c) (c_meta c) cb evs
           \<and> stages evs = [] \<and> pending (event_loop h c w) = None"
proof (rule host_turn_terminal [OF assms(2)])
  let ?wp = "w\<lparr>pending := None\<rparr>"
  have live: "callbacks ?wp (c_pcb c) = Some cb"
    using assms(1) by simp
  show "\<exists>evs. trace (snd (handler h c (AwaitArrayBuffer bytes) ?wp)) = trace w @ evs
           \<and> terminal_part (c_pcb c) (c_meta c) cb evs \<and> stages evs = []
           \<and> pending (snd (handler h c (AwaitArrayBuffer bytes) ?wp)) = None"
  proof (cases "h_arrayBuffer h")
    case True
    then show ?thesis
      using loadImage_delivers [OF live, of h bytes] by (auto simp: handler_def)
  next
    case False
    then show ?thesis
      using failed_delivers [OF live, of RasterError_BlobExportFailed BlobExportFailed]
      by (auto simp: handler_def Error_of_int_simps)
  qed
qed

lemma processBlob_Some:
  "processBlob c (Some bytes) w =
     (Normal, (emit (Entered F_processBlob) w)\<lparr>pending := Some (AwaitArrayBuffer bytes)\<rparr>)"
  by (simp add: processBlob_def Let_def)

lemma processBlob_None:
  "processBlob c None w = failed c RasterError_BlobExportFailed (emit (Entered F_processBlob) w)"
  by (simp add: processBlob_def Let_def)

lemma tail_AwaitBlob:
  assumes "callbacks w (c_pcb c) = Some cb" and "pending w = Some AwaitBlob"
  shows "\<exists>evs. trace (event_loop h c w) = trace w @ evs
           \<and> terminal_part (c_pcb c) (c_meta c) cb evs
           \<and> stages evs = [] \<and> pending (event_loop h c w) = None"
proof (cases "h_toBlob h")
  case None
  let ?wa = "w\<lparr>pending := None\<rparr>"
  let ?wp = "emit (Entered F_processBlob) ?wa"
  have live: "callbacks ?wp (c_pcb c) = Some cb"
    using assms(1) by simp
  have ok: "Error_of_int RasterError_BlobExportFailed = Some BlobExportFailed"
    by (simp add: Error_of_int_simps)
  have "\<exists>evs. trace (snd (handler h c AwaitBlob ?wa)) = trace w @ evs
           \<and> terminal_part (c_pcb c) (c_meta c) cb evs \<and> stages evs = stages [Entered F_processBlob]
           \<and> pending (snd (handler h c AwaitBlob ?wa)) = None"
    using None failed_after [OF live ok, of w "[Entered F_processBlob]"]
    by (simp add: handler_def processBlob_None)
  from host_turn_terminal [OF assms(2) this] show ?thesis by simp
next
  case (Some bytes)
  let ?wb = "(emit (Entered F_processBlob) (w\<lparr>pending := None\<rparr>))
               \<lparr>pending := Some (AwaitArrayBuffer bytes)\<rparr>"
  have h1: "handler h c AwaitBlob (w\<lparr>pending := None\<rparr>) = (Normal, ?wb)"
    using Some by (simp add: handler_def processBlob_Some)
  have live: "callbacks ?wb (c_pcb c) = Some cb"
    using assms(1) by simp
  have tl: "\<exists>evs. trace (event_loop h c ?wb) = trace ?wb @ evs
           \<and> terminal_part (c_pcb c) (c_meta c) cb evs
           \<and> stages evs = [] \<and> pending (event_loop h c ?wb) = None"
    by (rule tail_AwaitArrayBuffer [OF live]) simp
  show ?thesis
    using host_turn_continues [OF assms(2) h1 _ _ _ _ _ tl, of "[Entered F_processBlob]"]
    by simp
qed

lemma drawSvg_unfold:
  "drawSvg h c img fmt w =
     (let w2 = emit (sized_event c img) (emit (Entered F_setCanvasSize) (emit (Entered F_drawSvg) w))
      in if \<not> h_getContext h then failed c RasterError_CanvasDrawingFailed w2
         else if h_drawImage_throws h
           then failed c RasterError_CanvasDrawingFailed (emit (drawn_event c) w2)
         else if h_toBlob_throws h
           then failed c RasterError_CanvasDrawingFailed
                  (emit (ToBlobCalled fmt (c_quality c)) (emit (drawn_event c) w2))
         else (Normal, (emit (ToBlobCalled fmt (c_quality c)) (emit (drawn_event c) w2))
                          \<lparr>pending := Some AwaitBlob\<rparr>))"
  by (simp add: drawSvg_def setCanvasSize_def sized_event_def drawn_event_def Let_def)

lemma tail_AwaitImg:
  assumes "callbacks w (c_pcb c) = Some cb" and "pending w = Some (AwaitImg fmt)"
  shows "\<exists>evs. trace (event_loop h c w) = trace w @ evs
           \<and> terminal_part (c_pcb c) (c_meta c) cb evs
           \<and> (stages evs = [] \<or> stages evs = [Drawing] \<or> stages evs = [Drawing, Exporting])
           \<and> pending (event_loop h c w) = None"
proof -
  let ?wa = "w\<lparr>pending := None\<rparr>"
  have live0: "callbacks ?wa (c_pcb c) = Some cb"
    using assms(1) by simp
  have ok: "Error_of_int RasterError_CanvasDrawingFailed = Some CanvasDrawingFailed"
    "Error_of_int RasterError_ImgLoadingFailed = Some ImgLoadingFailed"
    by (simp_all add: Error_of_int_simps)
  show ?thesis
  proof (cases "h_img h")
    case None
    have "\<exists>evs. trace (snd (handler h c (AwaitImg fmt) ?wa)) = trace w @ evs
           \<and> terminal_part (c_pcb c) (c_meta c) cb evs \<and> stages evs = stages []
           \<and> pending (snd (handler h c (AwaitImg fmt) ?wa)) = None"
      using None failed_after [OF live0 ok(2), of w "[]"] by (simp add: handler_def)
    from host_turn_terminal [OF assms(2) this] show ?thesis by auto
  next
    case (Some img)
    let ?wc = "emit (sized_event c img) (emit (Entered F_setCanvasSize) (emit (Entered F_drawSvg) ?wa))"
    let ?wd = "emit (drawn_event c) ?wc"
    let ?we = "emit (ToBlobCalled fmt (c_quality c)) ?wd"
    let ?pc = "[Entered F_drawSvg, Entered F_setCanvasSize, sized_event c img]"
    let ?pd = "?pc @ [drawn_event c]"
    let ?pe = "?pd @ [ToBlobCalled fmt (c_quality c)]"
    have hd: "handler h c (AwaitImg fmt) ?wa = drawSvg h c img fmt ?wa"
      using Some by (simp add: handler_def)
    consider (ctx) "\<not> h_getContext h"
      | (draw) "h_getContext h" "h_drawImage_throws h"
      | (blob) "h_getContext h" "\<not> h_drawImage_throws h" "h_toBlob_throws h"
      | (go) "h_getContext h" "\<not> h_drawImage_throws h" "\<not> h_toBlob_throws h"
      by blast
    then show ?thesis
    proof cases
      case ctx
      have "\<exists>evs. trace (snd (handler h c (AwaitImg fmt) ?wa)) = trace w @ evs
           \<and> terminal_part (c_pcb c) (c_meta c) cb evs \<and> stages evs = stages ?pc
           \<and> pending (snd (handler h c (AwaitImg fmt) ?wa)) = None"
        using ctx failed_after [of ?wc c cb _ _ w ?pc, OF _ ok(1)] assms(1)
        by (simp add: hd drawSvg_unfold)
      from host_turn_terminal [OF assms(2) this] show ?thesis by auto
    next
      case draw
      have "\<exists>evs. trace (snd (handler h c (AwaitImg fmt) ?wa)) = trace w @ evs
           \<and> terminal_part (c_pcb c) (c_meta c) cb evs \<and> stages evs = stages ?pd
           \<and> pending (snd (handler h c (AwaitImg fmt) ?wa)) = None"
        using draw failed_after [of ?wd c cb _ _ w ?pd, OF _ ok(1)] assms(1)
        by (simp add: hd drawSvg_unfold)
      from host_turn_terminal [OF assms(2) this] show ?thesis by auto
    next
      case blob
      have "\<exists>evs. trace (snd (handler h c (AwaitImg fmt) ?wa)) = trace w @ evs
           \<and> terminal_part (c_pcb c) (c_meta c) cb evs \<and> stages evs = stages ?pe
           \<and> pending (snd (handler h c (AwaitImg fmt) ?wa)) = None"
        using blob failed_after [of ?we c cb _ _ w ?pe, OF _ ok(1)] assms(1)
        by (simp add: hd drawSvg_unfold)
      from host_turn_terminal [OF assms(2) this] show ?thesis by auto
    next
      case go
      let ?wf = "?we\<lparr>pending := Some AwaitBlob\<rparr>"
      have h1: "handler h c (AwaitImg fmt) ?wa = (Normal, ?wf)"
        using go by (simp add: hd drawSvg_unfold)
      have live: "callbacks ?wf (c_pcb c) = Some cb"
        using assms(1) by simp
      have tl: "\<exists>evs. trace (event_loop h c ?wf) = trace ?wf @ evs
           \<and> terminal_part (c_pcb c) (c_meta c) cb evs
           \<and> stages evs = [] \<and> pending (event_loop h c ?wf) = None"
        by (rule tail_AwaitBlob [OF live]) simp
      have "\<exists>evs. trace (event_loop h c w) = trace w @ evs
           \<and> terminal_part (c_pcb c) (c_meta c) cb evs
           \<and> stages evs = [Drawing, Exporting] \<and> pending (event_loop h c w) = None"
        using host_turn_continues [OF assms(2) h1 _ _ _ _ _ tl, of ?pe]
        by simp
      then show ?thesis by auto
    qed
  qed
qed

subsection \<open>A whole request\<close>

lemma in_pipeline_order_cases:
  "ss = [] \<or> ss = [Drawing] \<or> ss = [Drawing, Exporting] \<Longrightarrow>
   in_pipeline_order (Encoding # Loading # ss)"
  by (auto simp: in_pipeline_order_def)

lemma SvgToImage_issue:
  assumes "r_svg r \<noteq> []" and "hd (r_svg r) \<noteq> 0"
  shows "SvgToImage h r w =
     aux_SvgToImage h (closure_of r (h_new h))
       (emit (HandleCreated (h_new h)) (w\<lparr>callbacks := (callbacks w)(h_new h \<mapsto> r_cb r)\<rparr>))"
  using assms by (simp add: SvgToImage_def Let_def)

lemma aux_SvgToImage_unfold:
  "aux_SvgToImage h c w =
     (case h_encodeURIComponent h (UTF8ToString (c_data c) (c_size c)) of
        None \<Rightarrow> failed c RasterError_UriEncodingFailed
                  (emit (Entered F_svgToDataUri) (emit HostEntered w))
      | Some enc \<Rightarrow>
          (Normal, (emit (ImgSrcAssigned (''data:image/svg+xml;charset=utf8,'' @ enc))
                     (emit (Entered F_svgToDataUri) (emit HostEntered w)))
                   \<lparr>pending := Some (AwaitImg (c_format c))\<rparr>))"
  by (simp add: aux_SvgToImage_def svgToDataUri_def Let_def
      split: option.split prod.split outcome.split)

lemma run_delivers:
  assumes "r_svg r \<noteq> []" and "hd (r_svg r) \<noteq> 0" and "pending w = None"
  shows "\<exists>evs. trace (run h r w) = trace w @ HandleCreated (h_new h) # evs
           \<and> terminal_part (h_new h) (r_meta r) (r_cb r) evs
           \<and> in_pipeline_order (stages evs)
           \<and> pending (run h r w) = None"
proof -
  let ?c = "closure_of r (h_new h)"
  let ?wb = "emit (HandleCreated (h_new h)) (w\<lparr>callbacks := (callbacks w)(h_new h \<mapsto> r_cb r)\<rparr>)"
  let ?wc = "emit (Entered F_svgToDataUri) (emit HostEntered ?wb)"
  let ?pre = "[HostEntered, Entered F_svgToDataUri]"
  have meta: "c_meta ?c = r_meta r" and pcb: "c_pcb ?c = h_new h"
    by (simp_all add: closure_of_def)
  have live: "callbacks ?wc (c_pcb ?c) = Some (r_cb r)"
    by (simp add: pcb)
  have run: "run h r w = event_loop h ?c (snd (aux_SvgToImage h ?c ?wb))"
    by (simp add: run_def SvgToImage_issue [OF assms(1,2)] split: prod.split)
  show ?thesis
  proof (cases "h_encodeURIComponent h (UTF8ToString (c_data ?c) (c_size ?c))")
    case None
    have ok: "Error_of_int RasterError_UriEncodingFailed = Some UriEncodingFailed"
      by (simp add: Error_of_int_simps)
    have aux: "aux_SvgToImage h ?c ?wb = failed ?c RasterError_UriEncodingFailed ?wc"
      using None by (simp add: aux_SvgToImage_unfold)
    from failed_after [OF live ok, of ?wb ?pre] assms(3)
    obtain evs where evs: "trace (snd (failed ?c RasterError_UriEncodingFailed ?wc)) = trace ?wb @ evs"
      "terminal_part (h_new h) (r_meta r) (r_cb r) evs" "stages evs = [Encoding]"
      "pending (snd (failed ?c RasterError_UriEncodingFailed ?wc)) = None"
      by (auto simp: meta pcb)
    have "run h r w = snd (failed ?c RasterError_UriEncodingFailed ?wc)"
      using evs(4) by (simp add: run aux event_loop_None)
    moreover have "in_pipeline_order (stages evs)"
      by (simp add: evs(3) in_pipeline_order_def)
    ultimately show ?thesis
      using evs by auto
  next
    case (Some enc)
    let ?uri = "''data:image/svg+xml;charset=utf8,'' @ enc"
    let ?wd = "(emit (ImgSrcAssigned ?uri) ?wc)\<lparr>pending := Some (AwaitImg (c_format ?c))\<rparr>"
    have aux: "aux_SvgToImage h ?c ?wb = (Normal, ?wd)"
      using Some by (simp add: aux_SvgToImage_unfold)
    have lived: "callbacks ?wd (c_pcb ?c) = Some (r_cb r)"
      by (simp add: pcb)
    from tail_AwaitImg [OF lived, of "c_format ?c" h]
    obtain evs where evs: "trace (event_loop h ?c ?wd) = trace ?wd @ evs"
      "terminal_part (h_new h) (r_meta r) (r_cb r) evs"
      "stages evs = [] \<or> stages evs = [Drawing] \<or> stages evs = [Drawing, Exporting]"
      "pending (event_loop h ?c ?wd) = None"
      by (auto simp: meta pcb)
    let ?evs = "?pre @ ImgSrcAssigned ?uri # evs"
    have "trace (run h r w) = trace w @ HandleCreated (h_new h) # ?evs"
      using evs(1) by (simp add: run aux)
    moreover have "terminal_part (h_new h) (r_meta r) (r_cb r) ?evs"
      using evs(2) terminal_part_neutral_prefix [of "?pre @ [ImgSrcAssigned ?uri]" _ _ _ evs]
      by simp
    moreover have "in_pipeline_order (stages ?evs)"
      using in_pipeline_order_cases [OF evs(3)] by simp
    moreover have "pending (run h r w) = None"
      using evs(4) by (simp add: run aux)
    ultimately show ?thesis by blast
  qed
qed


lemmas eval_defs =
  run_def SvgToImage_def aux_SvgToImage_def svgToDataUri_def failed_def ccall_ExecCb_def
  ExecCb_def host_turn_def handler_def drawSvg_def setCanvasSize_def processBlob_def
  loadImage_def closure_of_def initial_def Error_of_int_simps demo_request_def demo_host_def
  returning_callback_def throwing_callback_def UTF8ToString_def emit_def Let_def
  event_loop_None event_loop_Some truthy_def js_and_def

lemma handle_lifecycle:
  assumes "r_svg r \<noteq> []" and "hd (r_svg r) \<noteq> 0" and "pending w = None"
  shows "created (events_since w (run h r w)) = [h_new h]
       \<and> destroyed (events_since w (run h r w)) =
           (case invocations (events_since w (run h r w)) of
              [(view, err, m)] \<Rightarrow> if r_cb r view err m = Returns then [h_new h] else []
            | _ \<Rightarrow> [])"
proof -
  from run_delivers [OF assms, of h]
  obtain evs where evs: "trace (run h r w) = trace w @ HandleCreated (h_new h) # evs"
    "terminal_part (h_new h) (r_meta r) (r_cb r) evs"
    by blast
  have es: "events_since w (run h r w) = HandleCreated (h_new h) # evs"
    by (rule events_since_append) (simp add: evs(1))
  show ?thesis
    using evs(2) by (simp add: es terminal_part_def)
qed


subsection \<open>The fast path\<close>

text \<open>
  Claim C3.  When the markup is empty or begins with the terminator, \<^verbatim>\<open>SvgToImage\<close>
  has called the callback by the time it returns, exactly once, with an empty view and
  \<open>NoInputData\<close>; no callback handle was allocated, the host side was not entered,
  nothing is pending, and nothing happens afterwards.
\<close>

theorem SvgToImage_no_input_data:
  assumes "r_svg r = [] \<or> hd (r_svg r) = 0" and "pending w = None"
  shows "events_since w (snd (SvgToImage h r w)) = [CallbackInvoked [] NoInputData (r_meta r)]
       \<and> callbacks (snd (SvgToImage h r w)) = callbacks w
       \<and> buffers (snd (SvgToImage h r w)) = buffers w
       \<and> pending (snd (SvgToImage h r w)) = None
       \<and> run h r w = snd (SvgToImage h r w)"
proof -
  have s: "snd (SvgToImage h r w) = emit (CallbackInvoked [] NoInputData (r_meta r)) w"
    using assms(1) by (auto simp: SvgToImage_def split: cb_outcome.split)
  have "run h r w = event_loop h (closure_of r (h_new h)) (snd (SvgToImage h r w))"
    by (simp add: run_def split: prod.split)
  then have "run h r w = snd (SvgToImage h r w)"
    using assms(2) by (simp add: s event_loop_None)
  then show ?thesis
    using assms(2) by (simp add: s events_since_def)
qed

theorem SvgToImage_no_input_data_witness:
  "events_since (initial (\<lambda>a. 0))
      (snd (SvgToImage (demo_host None) ((demo_request returning_callback)\<lparr>r_svg := []\<rparr>)
              (initial (\<lambda>a. 0))))
     = [CallbackInvoked [] NoInputData 0]
   \<and> events_since (initial (\<lambda>a. 0))
      (snd (SvgToImage (demo_host None) ((demo_request throwing_callback)\<lparr>r_svg := [0, 0x3C]\<rparr>)
              (initial (\<lambda>a. 0))))
     = [CallbackInvoked [] NoInputData 0]"
  using SvgToImage_no_input_data
      [where r = "(demo_request returning_callback)\<lparr>r_svg := []\<rparr>"
         and w = "initial (\<lambda>a. 0)" and h = "demo_host None"]
    SvgToImage_no_input_data
      [where r = "(demo_request throwing_callback)\<lparr>r_svg := [0, 0x3C]\<rparr>"
         and w = "initial (\<lambda>a. 0)" and h = "demo_host None"]
  by (simp add: demo_request_def initial_def)

subsection \<open>The callback handle\<close>

text \<open>
  Claim C2 at a callback that throws.  The handle is created once and the callback is
  called once, but \<^verbatim>\<open>delete pcb\<close> is never reached: no handle is destroyed and the copy
  of the callback stays allocated, on the failure edge (a \<^verbatim>\<open>null\<close> blob) as well as on
  the success edge, where the transient buffer is freed all the same.
\<close>

theorem throwing_callback_leaks_handle:
  "trace (run (demo_host None) (demo_request throwing_callback) (initial (\<lambda>a. 0))) =
     [HandleCreated 0x1000, HostEntered, Entered F_svgToDataUri,
      ImgSrcAssigned ''data:image/svg+xml;charset=utf8,%3Csvg%2F%3E'',
      Entered F_drawSvg, Entered F_setCanvasSize, CanvasSized (Finite 300) (Finite 150),
      DrawImage3 (Finite 0) (Finite 0), ToBlobCalled ''image/png'' (Finite 1),
      Entered F_processBlob, Entered F_failed, CallbackInvoked [] BlobExportFailed 0,
      UncaughtException]
   \<and> callbacks (run (demo_host None) (demo_request throwing_callback) (initial (\<lambda>a. 0))) 0x1000
       = Some throwing_callback
   \<and> trace (run (demo_host (Some [])) (demo_request throwing_callback) (initial (\<lambda>a. 0))) =
     [HandleCreated 0x1000, HostEntered, Entered F_svgToDataUri,
      ImgSrcAssigned ''data:image/svg+xml;charset=utf8,%3Csvg%2F%3E'',
      Entered F_drawSvg, Entered F_setCanvasSize, CanvasSized (Finite 300) (Finite 150),
      DrawImage3 (Finite 0) (Finite 0), ToBlobCalled ''image/png'' (Finite 1),
      Entered F_processBlob, Entered F_loadImage, BufferAllocated 0x2000 0,
      CallbackInvoked [] None' 0, Alerted, BufferFreed 0x2000]
   \<and> callbacks (run (demo_host (Some [])) (demo_request throwing_callback) (initial (\<lambda>a. 0))) 0x1000
       = Some throwing_callback"
  by (simp add: eval_defs)

subsection \<open>The result marshalling\<close>

lemma view_at_writeArrayToMemory:
  assumes "length arr < 2 ^ 32"
  shows "view_at (writeArrayToMemory arr a mem) a (of_nat (length arr)) = arr"
proof (rule nth_equalityI)
  have u: "unat (of_nat (length arr) :: size_t) = length arr"
    using assms by (simp add: unat_of_nat)
  show "length (view_at (writeArrayToMemory arr a mem) a (of_nat (length arr))) = length arr"
    by (simp add: view_at_def u)
  fix i
  assume "i < length (view_at (writeArrayToMemory arr a mem) a (of_nat (length arr)))"
  then have i: "i < length arr"
    by (simp add: view_at_def u)
  then have "i < 2 ^ 32"
    using assms by simp
  then have ui: "unat (of_nat i :: size_t) = i"
    by (simp add: unat_of_nat)
  show "view_at (writeArrayToMemory arr a mem) a (of_nat (length arr)) ! i = arr ! i"
    using i by (simp add: view_at_def u writeArrayToMemory_def ui)
qed

lemma handed_view:
  assumes "h_malloc h \<noteq> 0" and "length arr < 2 ^ 32"
  shows "(if h_malloc h \<noteq> 0 \<and> (of_nat (length arr) :: size_t) > 0
          then view_at (writeArrayToMemory arr (h_malloc h) mem) (h_malloc h) (of_nat (length arr))
          else []) = arr"
proof (cases "arr = []")
  case True
  then show ?thesis by simp
next
  case False
  have "unat (of_nat (length arr) :: size_t) = length arr"
    using assms(2) by (simp add: unat_of_nat)
  then have "(of_nat (length arr) :: size_t) \<noteq> 0"
    using False by (metis length_0_conv unat_0)
  then have "(of_nat (length arr) :: size_t) > 0"
    by (simp add: word_greater_zero_iff)
  then show ?thesis
    using assms by (simp add: view_at_writeArrayToMemory)
qed

lemma failed_allocates_nothing:
  "\<exists>evs. trace (snd (failed c e w)) = trace w @ evs \<and> allocated evs = []"
  by (simp add: failed_def ccall_ExecCb_def ExecCb_def Let_def
      split: option.split cb_outcome.split)

text \<open>
  Claim C4.  On the success edge \<^verbatim>\<open>loadImage\<close> allocates a block of exactly the number
  of bytes produced, the callback sees exactly those bytes, and the block is freed after
  the call, whether the callback returned or threw (then after the alert); no block stays
  allocated.  The failure edge \<^verbatim>\<open>failed\<close> allocates nothing.  The allocation is taken to
  succeed and the bytes to fit the address space.
\<close>

theorem loadImage_transient_buffer:
  assumes "callbacks w (c_pcb c) = Some cb" and "h_malloc h \<noteq> 0" and "length arr < 2 ^ 32"
  shows "events_since w (snd (loadImage h c arr w)) =
           [Entered F_loadImage, BufferAllocated (h_malloc h) (length arr),
            CallbackInvoked arr None' (c_meta c),
            (if cb arr None' (c_meta c) = Returns then HandleDestroyed (c_pcb c) else Alerted),
            BufferFreed (h_malloc h)]
       \<and> buffers (snd (loadImage h c arr w)) = buffers w
       \<and> allocated (events_since w (snd (failed c e w))) = []"
proof -
  have v: "arr = (if h_malloc h \<noteq> 0 \<and> (of_nat (length arr) :: size_t) > 0
                 then view_at (writeArrayToMemory arr (h_malloc h) (memory w)) (h_malloc h)
                        (of_nat (length arr))
                 else [])"
    by (simp only: handed_view [OF assms(2,3)])
  have "trace (snd (loadImage h c arr w)) = trace w @
           [Entered F_loadImage, BufferAllocated (h_malloc h) (length arr),
            CallbackInvoked arr None' (c_meta c),
            (if cb arr None' (c_meta c) = Returns then HandleDestroyed (c_pcb c) else Alerted),
            BufferFreed (h_malloc h)]"
    using loadImage_live(1) [OF assms(1) v] by simp
  then have a: "events_since w (snd (loadImage h c arr w)) =
           [Entered F_loadImage, BufferAllocated (h_malloc h) (length arr),
            CallbackInvoked arr None' (c_meta c),
            (if cb arr None' (c_meta c) = Returns then HandleDestroyed (c_pcb c) else Alerted),
            BufferFreed (h_malloc h)]"
    by (rule events_since_append)
  have b: "buffers (snd (loadImage h c arr w)) = buffers w"
    using loadImage_live(4) [OF assms(1) v] by simp
  obtain evs where "trace (snd (failed c e w)) = trace w @ evs" "allocated evs = []"
    using failed_allocates_nothing by blast
  then have "allocated (events_since w (snd (failed c e w))) = []"
    by (simp add: events_since_append)
  with a b show ?thesis by simp
qed

theorem loadImage_transient_buffer_witness:
  "events_since ((initial (\<lambda>a. 0))\<lparr>callbacks := [0x1000 \<mapsto> returning_callback]\<rparr>) (snd (loadImage (demo_host None) (closure_of (demo_request returning_callback) 0x1000) [0x89, 0x50] ((initial (\<lambda>a. 0))\<lparr>callbacks := [0x1000 \<mapsto> returning_callback]\<rparr>))) =
     [Entered F_loadImage, BufferAllocated 0x2000 2, CallbackInvoked [0x89, 0x50] None' 0,
      HandleDestroyed 0x1000, BufferFreed 0x2000]
   \<and> buffers (snd (loadImage (demo_host None) (closure_of (demo_request returning_callback) 0x1000) [0x89, 0x50] ((initial (\<lambda>a. 0))\<lparr>callbacks := [0x1000 \<mapsto> returning_callback]\<rparr>))) = []"
  using loadImage_transient_buffer
    [where w = "(initial (\<lambda>a. 0))\<lparr>callbacks := [0x1000 \<mapsto> returning_callback]\<rparr>"
       and c = "closure_of (demo_request returning_callback) 0x1000" and cb = returning_callback
       and h = "demo_host None" and arr = "[0x89, 0x50]"]
  by (simp add: demo_host_def demo_request_def closure_of_def initial_def returning_callback_def)

text \<open>
  Claim C9.  \<^verbatim>\<open>ExecCb\<close> hands the callback the view \<^verbatim>\<open>{data, size}\<close> when \<open>data\<close> is
  not null and \<open>size\<close> is positive, and an empty view in every other case, with the error
  code passed on as it is; so an export of zero bytes reaches the callback as an empty view
  together with \<open>Error::None\<close>.
\<close>

theorem ExecCb_view_selection:
  assumes "callbacks w (c_pcb c) = Some cb"
  shows "invocations (events_since w (snd (ExecCb (c_pcb c) data sz err meta w)))
           = [(if data \<noteq> 0 \<and> 0 < sz then view_at (memory w) data sz else [], err, meta)]
       \<and> invocations (events_since w (snd (loadImage h c [] w))) = [([], None', c_meta c)]"
proof -
  have "trace (snd (ExecCb (c_pcb c) data sz err meta w)) = trace w @
          CallbackInvoked (if data \<noteq> 0 \<and> 0 < sz then view_at (memory w) data sz else []) err meta
          # (if cb (if data \<noteq> 0 \<and> 0 < sz then view_at (memory w) data sz else []) err meta = Returns
             then [HandleDestroyed (c_pcb c)] else [])"
    by (simp add: ExecCb_live [OF assms] Let_def)
  then have a: "invocations (events_since w (snd (ExecCb (c_pcb c) data sz err meta w)))
           = [(if data \<noteq> 0 \<and> 0 < sz then view_at (memory w) data sz else [], err, meta)]"
    by (simp add: events_since_append)
  have "trace (snd (loadImage h c [] w)) = trace w @
          [Entered F_loadImage, BufferAllocated (h_malloc h) (length ([] :: byte list)),
           CallbackInvoked [] None' (c_meta c)]
          @ (if cb [] None' (c_meta c) = Returns then [HandleDestroyed (c_pcb c)] else [Alerted])
          @ [BufferFreed (h_malloc h)]"
    by (rule loadImage_live(1) [OF assms]) simp
  then have "invocations (events_since w (snd (loadImage h c [] w))) = [([], None', c_meta c)]"
    by (simp add: events_since_append)
  with a show ?thesis by simp
qed

theorem ExecCb_view_selection_witness:
  "invocations (events_since ((initial (\<lambda>a. 0))\<lparr>callbacks := [0x1000 \<mapsto> returning_callback]\<rparr>) (snd (ExecCb 0x1000 0x2000 0 None' 0 ((initial (\<lambda>a. 0))\<lparr>callbacks := [0x1000 \<mapsto> returning_callback]\<rparr>))))
     = [([], None', 0)]
   \<and> invocations (events_since ((initial (\<lambda>a. 0))\<lparr>callbacks := [0x1000 \<mapsto> returning_callback]\<rparr>) (snd (loadImage (demo_host None) (closure_of (demo_request returning_callback) 0x1000) [] ((initial (\<lambda>a. 0))\<lparr>callbacks := [0x1000 \<mapsto> returning_callback]\<rparr>))))
     = [([], None', 0)]"
  using ExecCb_view_selection
    [where w = "(initial (\<lambda>a. 0))\<lparr>callbacks := [0x1000 \<mapsto> returning_callback]\<rparr>"
       and c = "closure_of (demo_request returning_callback) 0x1000" and cb = returning_callback
       and data = "0x2000" and sz = 0 and err = None' and meta = 0 and h = "demo_host None"]
  by (simp add: demo_request_def closure_of_def initial_def)

subsection \<open>Exporting\<close>

lemma host_turn_eq:
  "pending w = Some t \<Longrightarrow>
   host_turn h c w =
     (if fst (handler h c t (w\<lparr>pending := None\<rparr>)) = Normal
      then snd (handler h c t (w\<lparr>pending := None\<rparr>))
      else emit UncaughtException (snd (handler h c t (w\<lparr>pending := None\<rparr>))))"
  by (simp add: host_turn_def split: prod.split outcome.split)

text \<open>
  Claim C7, as the code has it.  \<^verbatim>\<open>processBlob\<close> tests \<^verbatim>\<open>!blob\<close>, which holds for
  \<^verbatim>\<open>null\<close> only.  A \<^verbatim>\<open>null\<close> export result leads to \<open>BlobExportFailed\<close> with an empty
  view, and so does a blob whose bytes cannot be read; every blob that is read, empty or
  not, proceeds to \<^verbatim>\<open>loadImage\<close> and is delivered with \<open>Error::None\<close>: an empty blob as
  an empty view, and any blob as its bytes once the buffer for them is allocated.
\<close>

theorem export_result:
  assumes "callbacks w (c_pcb c) = Some cb" and "pending w = None"
  shows "(case blob of
            None \<Rightarrow>
              invocations (events_since w (event_loop h c (snd (processBlob c blob w))))
                = [([], BlobExportFailed, c_meta c)]
              \<and> terminal_edges (events_since w (event_loop h c (snd (processBlob c blob w))))
                = [Entered F_failed]
          | Some bytes \<Rightarrow>
              if h_arrayBuffer h
              then (\<exists>view. invocations (events_since w (event_loop h c (snd (processBlob c blob w))))
                             = [(view, None', c_meta c)]
                           \<and> (bytes = [] \<longrightarrow> view = [])
                           \<and> (h_malloc h \<noteq> 0 \<and> length bytes < 2 ^ 32 \<longrightarrow> view = bytes))
                   \<and> terminal_edges (events_since w (event_loop h c (snd (processBlob c blob w))))
                       = [Entered F_loadImage]
              else invocations (events_since w (event_loop h c (snd (processBlob c blob w))))
                     = [([], BlobExportFailed, c_meta c)]
                   \<and> terminal_edges (events_since w (event_loop h c (snd (processBlob c blob w))))
                       = [Entered F_failed])"
proof (cases blob)
  case None
  let ?wb = "emit (Entered F_processBlob) w"
  have live: "callbacks ?wb (c_pcb c) = Some cb"
    using assms(1) by simp
  have ok: "Error_of_int RasterError_BlobExportFailed = Some BlobExportFailed"
    by (simp add: Error_of_int_simps)
  have pb: "processBlob c blob w = failed c RasterError_BlobExportFailed ?wb"
    using None by (simp add: processBlob_None)
  have p: "pending (snd (failed c RasterError_BlobExportFailed ?wb)) = None"
    using failed_trace(2) [OF live ok] assms(2) by simp
  have "trace (event_loop h c (snd (processBlob c blob w))) =
      trace w @ ([Entered F_processBlob, Entered F_failed, CallbackInvoked [] BlobExportFailed (c_meta c)]
        @ (if cb [] BlobExportFailed (c_meta c) = Returns then [HandleDestroyed (c_pcb c)] else []))"
    using failed_trace(1) [OF live ok] p by (simp add: pb event_loop_None)
  then have "events_since w (event_loop h c (snd (processBlob c blob w))) =
      [Entered F_processBlob, Entered F_failed, CallbackInvoked [] BlobExportFailed (c_meta c)]
        @ (if cb [] BlobExportFailed (c_meta c) = Returns then [HandleDestroyed (c_pcb c)] else [])"
    by (rule events_since_append)
  then show ?thesis
    using None by simp
next
  case (Some bytes)
  let ?wb = "(emit (Entered F_processBlob) w)\<lparr>pending := Some (AwaitArrayBuffer bytes)\<rparr>"
  let ?wc = "(emit (Entered F_processBlob) w)\<lparr>pending := None\<rparr>"
  have pb: "snd (processBlob c blob w) = ?wb"
    using Some by (simp add: processBlob_Some)
  have turn: "host_turn h c ?wb =
     (if fst (handler h c (AwaitArrayBuffer bytes) ?wc) = Normal
      then snd (handler h c (AwaitArrayBuffer bytes) ?wc)
      else emit UncaughtException (snd (handler h c (AwaitArrayBuffer bytes) ?wc)))"
    using host_turn_eq [of ?wb "AwaitArrayBuffer bytes" h c] by simp
  have live: "callbacks ?wc (c_pcb c) = Some cb"
    using assms(1) by simp
  show ?thesis
  proof (cases "h_arrayBuffer h")
    case True
    let ?view = "if h_malloc h \<noteq> 0 \<and> (of_nat (length bytes) :: size_t) > 0
                 then view_at (writeArrayToMemory bytes (h_malloc h) (memory ?wc)) (h_malloc h)
                        (of_nat (length bytes))
                 else []"
    have hd: "handler h c (AwaitArrayBuffer bytes) ?wc = loadImage h c bytes ?wc"
      using True by (simp add: handler_def)
    have ht: "host_turn h c ?wb = snd (loadImage h c bytes ?wc)"
      using loadImage_live(3) [OF live refl, of h bytes]
      by (simp add: turn hd)
    have p: "pending (snd (loadImage h c bytes ?wc)) = None"
      using loadImage_live(2) [OF live refl, of h bytes] by simp
    have el: "event_loop h c ?wb = snd (loadImage h c bytes ?wc)"
      using p by (simp add: event_loop_Some [of ?wb "AwaitArrayBuffer bytes"] ht event_loop_None)
    have "trace (event_loop h c (snd (processBlob c blob w))) =
      trace w @ ([Entered F_processBlob, Entered F_loadImage,
                  BufferAllocated (h_malloc h) (length bytes),
                  CallbackInvoked ?view None' (c_meta c)]
        @ (if cb ?view None' (c_meta c) = Returns then [HandleDestroyed (c_pcb c)] else [Alerted])
        @ [BufferFreed (h_malloc h)])"
      using loadImage_live(1) [OF live refl, of h bytes] by (simp add: pb el)
    then have "events_since w (event_loop h c (snd (processBlob c blob w))) =
      [Entered F_processBlob, Entered F_loadImage,
                  BufferAllocated (h_malloc h) (length bytes),
                  CallbackInvoked ?view None' (c_meta c)]
        @ (if cb ?view None' (c_meta c) = Returns then [HandleDestroyed (c_pcb c)] else [Alerted])
        @ [BufferFreed (h_malloc h)]"
      by (rule events_since_append)
    then have inv: "invocations (events_since w (event_loop h c (snd (processBlob c blob w))))
                      = [(?view, None', c_meta c)]"
      and te: "terminal_edges (events_since w (event_loop h c (snd (processBlob c blob w))))
                 = [Entered F_loadImage]"
      by simp_all
    have empty: "bytes = [] \<longrightarrow> ?view = []"
      by simp
    have full: "h_malloc h \<noteq> 0 \<and> length bytes < 2 ^ 32 \<longrightarrow> ?view = bytes"
      using handed_view [of h bytes "memory ?wc"] by blast
    from inv empty full
    have "\<exists>view. invocations (events_since w (event_loop h c (snd (processBlob c blob w))))
                   = [(view, None', c_meta c)]
                 \<and> (bytes = [] \<longrightarrow> view = [])
                 \<and> (h_malloc h \<noteq> 0 \<and> length bytes < 2 ^ 32 \<longrightarrow> view = bytes)"
      by blast
    then show ?thesis
      using Some True te by simp
  next
    case False
    have ok: "Error_of_int RasterError_BlobExportFailed = Some BlobExportFailed"
      by (simp add: Error_of_int_simps)
    have hd: "handler h c (AwaitArrayBuffer bytes) ?wc = failed c RasterError_BlobExportFailed ?wc"
      using False by (simp add: handler_def)
    let ?f = "failed c RasterError_BlobExportFailed ?wc"
    have ht: "host_turn h c ?wb = (if fst ?f = Normal then snd ?f else emit UncaughtException (snd ?f))"
      by (simp add: turn hd)
    have p: "pending (host_turn h c ?wb) = None"
      using failed_trace(2) [OF live ok] by (simp add: ht)
    have el: "event_loop h c ?wb = host_turn h c ?wb"
      using p by (simp add: event_loop_Some [of ?wb "AwaitArrayBuffer bytes"] event_loop_None)
    have "trace (event_loop h c (snd (processBlob c blob w))) =
      trace w @ ([Entered F_processBlob, Entered F_failed,
                  CallbackInvoked [] BlobExportFailed (c_meta c)]
        @ (if cb [] BlobExportFailed (c_meta c) = Returns then [HandleDestroyed (c_pcb c)]
           else [UncaughtException]))"
      using failed_trace(1,3) [OF live ok] by (simp add: pb el ht)
    then have "events_since w (event_loop h c (snd (processBlob c blob w))) =
      [Entered F_processBlob, Entered F_failed, CallbackInvoked [] BlobExportFailed (c_meta c)]
        @ (if cb [] BlobExportFailed (c_meta c) = Returns then [HandleDestroyed (c_pcb c)]
           else [UncaughtException])"
      by (rule events_since_append)
    then show ?thesis
      using Some False by simp
  qed
qed

theorem export_result_witness:
  "invocations (events_since ((initial (\<lambda>a. 0))\<lparr>callbacks := [0x1000 \<mapsto> returning_callback]\<rparr>)
      (event_loop (demo_host None) (closure_of (demo_request returning_callback) 0x1000)
        (snd (processBlob (closure_of (demo_request returning_callback) 0x1000) None ((initial (\<lambda>a. 0))\<lparr>callbacks := [0x1000 \<mapsto> returning_callback]\<rparr>)))))
     = [([], BlobExportFailed, 0)]
   \<and> invocations (events_since ((initial (\<lambda>a. 0))\<lparr>callbacks := [0x1000 \<mapsto> returning_callback]\<rparr>)
      (event_loop (demo_host None) (closure_of (demo_request returning_callback) 0x1000)
        (snd (processBlob (closure_of (demo_request returning_callback) 0x1000) (Some []) ((initial (\<lambda>a. 0))\<lparr>callbacks := [0x1000 \<mapsto> returning_callback]\<rparr>)))))
     = [([], None', 0)]
   \<and> invocations (events_since ((initial (\<lambda>a. 0))\<lparr>callbacks := [0x1000 \<mapsto> returning_callback]\<rparr>)
      (event_loop (demo_host None) (closure_of (demo_request returning_callback) 0x1000)
        (snd (processBlob (closure_of (demo_request returning_callback) 0x1000) (Some [0x89]) ((initial (\<lambda>a. 0))\<lparr>callbacks := [0x1000 \<mapsto> returning_callback]\<rparr>)))))
     = [([0x89], None', 0)]"
  using export_result
      [where w = "(initial (\<lambda>a. 0))\<lparr>callbacks := [0x1000 \<mapsto> returning_callback]\<rparr>"
         and c = "closure_of (demo_request returning_callback) 0x1000" and cb = returning_callback
         and blob = None and h = "demo_host None"]
    export_result
      [where w = "(initial (\<lambda>a. 0))\<lparr>callbacks := [0x1000 \<mapsto> returning_callback]\<rparr>"
         and c = "closure_of (demo_request returning_callback) 0x1000" and cb = returning_callback
         and blob = "Some []" and h = "demo_host None"]
    export_result
      [where w = "(initial (\<lambda>a. 0))\<lparr>callbacks := [0x1000 \<mapsto> returning_callback]\<rparr>"
         and c = "closure_of (demo_request returning_callback) 0x1000" and cb = returning_callback
         and blob = "Some [0x89]" and h = "demo_host None"]
  by (auto simp: demo_host_def demo_request_def closure_of_def initial_def)

text \<open>
  Claim C7 as stated fails for an empty export result: a blob of zero bytes is not
  \<^verbatim>\<open>null\<close>, so it is read and delivered as an empty view with \<open>Error::None\<close>, not with
  \<open>BlobExportFailed\<close>.
\<close>

theorem empty_blob_counterexample:
  "h_toBlob (demo_host (Some [])) = Some []
   \<and> invocations (trace (run (demo_host (Some [])) (demo_request returning_callback)
                            (initial (\<lambda>a. 0))))
       = [([], None', 0)]
   \<and> invocations (trace (run (demo_host (Some [])) (demo_request returning_callback)
                            (initial (\<lambda>a. 0))))
       \<noteq> [([], BlobExportFailed, 0)]"
  by (simp add: eval_defs invocations_def List.map_filter_def)

subsection \<open>Drawing\<close>

lemma failed_extends: "\<exists>evs. trace (snd (failed c e w)) = trace w @ evs"
  using failed_allocates_nothing by blast

lemma drawSvg_sized_events:
  "\<exists>rest. trace (snd (drawSvg h c img fmt w)) =
           trace w @ [Entered F_drawSvg, Entered F_setCanvasSize, sized_event c img] @ rest"
proof -
  let ?wc = "emit (sized_event c img) (emit (Entered F_setCanvasSize) (emit (Entered F_drawSvg) w))"
  let ?wd = "emit (drawn_event c) ?wc"
  let ?we = "emit (ToBlobCalled fmt (c_quality c)) ?wd"
  consider (ctx) "\<not> h_getContext h"
    | (draw) "h_getContext h" "h_drawImage_throws h"
    | (blob) "h_getContext h" "\<not> h_drawImage_throws h" "h_toBlob_throws h"
    | (go) "h_getContext h" "\<not> h_drawImage_throws h" "\<not> h_toBlob_throws h"
    by blast
  then show ?thesis
  proof cases
    case ctx
    obtain evs where "trace (snd (failed c RasterError_CanvasDrawingFailed ?wc)) = trace ?wc @ evs"
      using failed_extends by blast
    then show ?thesis
      using ctx by (simp add: drawSvg_unfold)
  next
    case draw
    obtain evs where "trace (snd (failed c RasterError_CanvasDrawingFailed ?wd)) = trace ?wd @ evs"
      using failed_extends by blast
    then show ?thesis
      using draw by (simp add: drawSvg_unfold)
  next
    case blob
    obtain evs where "trace (snd (failed c RasterError_CanvasDrawingFailed ?we)) = trace ?we @ evs"
      using failed_extends by blast
    then show ?thesis
      using blob by (simp add: drawSvg_unfold)
  next
    case go
    then show ?thesis
      by (simp add: drawSvg_unfold)
  qed
qed

lemma drawSvg_first_events:
  assumes "h_getContext h"
  shows "\<exists>rest. trace (snd (drawSvg h c img fmt w)) =
           trace w @ [Entered F_drawSvg, Entered F_setCanvasSize, sized_event c img, drawn_event c]
             @ rest"
proof -
  let ?wd = "emit (drawn_event c) (emit (sized_event c img) (emit (Entered F_setCanvasSize)
               (emit (Entered F_drawSvg) w)))"
  let ?we = "emit (ToBlobCalled fmt (c_quality c)) ?wd"
  consider (draw) "h_drawImage_throws h"
    | (blob) "\<not> h_drawImage_throws h" "h_toBlob_throws h"
    | (go) "\<not> h_drawImage_throws h" "\<not> h_toBlob_throws h"
    by blast
  then show ?thesis
  proof cases
    case draw
    obtain evs where "trace (snd (failed c RasterError_CanvasDrawingFailed ?wd)) = trace ?wd @ evs"
      using failed_extends by blast
    then show ?thesis
      using assms draw by (simp add: drawSvg_unfold)
  next
    case blob
    obtain evs where "trace (snd (failed c RasterError_CanvasDrawingFailed ?we)) = trace ?we @ evs"
      using failed_extends by blast
    then show ?thesis
      using assms blob by (simp add: drawSvg_unfold)
  next
    case go
    then show ?thesis
      using assms by (simp add: drawSvg_unfold)
  qed
qed

lemma take3_events:
  "trace w' = trace w @ [a, b, c] @ rest \<Longrightarrow> take 3 (events_since w w') = [a, b, c]"
  by (simp add: events_since_def)

lemma take4_events:
  "trace w' = trace w @ [a, b, c, d] @ rest \<Longrightarrow> take 4 (events_since w w') = [a, b, c, d]"
  by (simp add: events_since_def)

text \<open>
  Claim C8, as the code has it.  The test is \<^verbatim>\<open>width && height\<close>, the truth value of a
  JavaScript number.  When both are truthy (neither zero nor NaN) the canvas gets the
  size \<open>(width, height)\<close> and, if the canvas gives a 2d context, the image is drawn at
  \<open>(x, y)\<close> scaled into \<open>(width, height)\<close>, by the call
  \<^verbatim>\<open>drawImage(img, x, y, width, height)\<close>.  When both are zero the canvas gets the size of
  the decoded image and, if the canvas gives a 2d context, the image is drawn at
  \<open>(x, y)\<close> unscaled, by the call \<^verbatim>\<open>drawImage(img, x, y)\<close>.  The size is set in either
  case before the context is asked for.
\<close>

theorem drawSvg_surface_and_drawing:
  "(truthy (c_width c) \<and> truthy (c_height c) \<longrightarrow>
      fst (setCanvasSize c cv (c_width c) (c_height c) img w)
        = cv\<lparr>canvas_width := c_width c, canvas_height := c_height c\<rparr>
    \<and> take 3 (events_since w (snd (drawSvg h c img fmt w)))
        = [Entered F_drawSvg, Entered F_setCanvasSize, CanvasSized (c_width c) (c_height c)]
    \<and> (h_getContext h \<longrightarrow>
          take 4 (events_since w (snd (drawSvg h c img fmt w)))
            = [Entered F_drawSvg, Entered F_setCanvasSize,
               CanvasSized (c_width c) (c_height c),
               DrawImage5 (c_x c) (c_y c) (c_width c) (c_height c)]))
   \<and> (c_width c = Finite 0 \<and> c_height c = Finite 0 \<longrightarrow>
      fst (setCanvasSize c cv (c_width c) (c_height c) img w)
        = cv\<lparr>canvas_width := img_width img, canvas_height := img_height img\<rparr>
    \<and> take 3 (events_since w (snd (drawSvg h c img fmt w)))
        = [Entered F_drawSvg, Entered F_setCanvasSize,
           CanvasSized (img_width img) (img_height img)]
    \<and> (h_getContext h \<longrightarrow>
          take 4 (events_since w (snd (drawSvg h c img fmt w)))
            = [Entered F_drawSvg, Entered F_setCanvasSize,
               CanvasSized (img_width img) (img_height img),
               DrawImage3 (c_x c) (c_y c)]))"
proof -
  obtain rest where "trace (snd (drawSvg h c img fmt w)) =
      trace w @ [Entered F_drawSvg, Entered F_setCanvasSize, sized_event c img] @ rest"
    using drawSvg_sized_events by blast
  then have t3: "take 3 (events_since w (snd (drawSvg h c img fmt w)))
      = [Entered F_drawSvg, Entered F_setCanvasSize, sized_event c img]"
    by (rule take3_events)
  have t4: "h_getContext h \<Longrightarrow> take 4 (events_since w (snd (drawSvg h c img fmt w)))
      = [Entered F_drawSvg, Entered F_setCanvasSize, sized_event c img, drawn_event c]"
  proof -
    assume "h_getContext h"
    then obtain rest where "trace (snd (drawSvg h c img fmt w)) =
      trace w @ [Entered F_drawSvg, Entered F_setCanvasSize, sized_event c img, drawn_event c]
        @ rest"
      using drawSvg_first_events by blast
    then show ?thesis
      by (rule take4_events)
  qed
  have sz: "truthy (c_width c) \<and> truthy (c_height c) \<Longrightarrow>
      sized_event c img = CanvasSized (c_width c) (c_height c)
      \<and> drawn_event c = DrawImage5 (c_x c) (c_y c) (c_width c) (c_height c)
      \<and> fst (setCanvasSize c cv (c_width c) (c_height c) img w)
          = cv\<lparr>canvas_width := c_width c, canvas_height := c_height c\<rparr>"
    by (simp add: setCanvasSize_def sized_event_def drawn_event_def js_and_def Let_def)
  have nat: "c_width c = Finite 0 \<and> c_height c = Finite 0 \<Longrightarrow>
      sized_event c img = CanvasSized (img_width img) (img_height img)
      \<and> drawn_event c = DrawImage3 (c_x c) (c_y c)
      \<and> fst (setCanvasSize c cv (c_width c) (c_height c) img w)
          = cv\<lparr>canvas_width := img_width img, canvas_height := img_height img\<rparr>"
    by (simp add: setCanvasSize_def sized_event_def drawn_event_def js_and_def truthy_def Let_def)
  show ?thesis
    using t3 t4 sz nat by auto
qed

theorem drawSvg_surface_and_drawing_witness:
  "take 3 (events_since (initial (\<lambda>a. 0))
      (snd (drawSvg (demo_host None)
             (closure_of ((demo_request returning_callback)
                \<lparr>r_width := Finite 64, r_height := Finite 48\<rparr>) 0x1000)
             \<lparr>img_width = Finite 300, img_height = Finite 150\<rparr> ''image/png''
             (initial (\<lambda>a. 0)))))
     = [Entered F_drawSvg, Entered F_setCanvasSize, CanvasSized (Finite 64) (Finite 48)]
   \<and> take 4 (events_since (initial (\<lambda>a. 0))
      (snd (drawSvg (demo_host None)
             (closure_of ((demo_request returning_callback)
                \<lparr>r_width := Finite 64, r_height := Finite 48\<rparr>) 0x1000)
             \<lparr>img_width = Finite 300, img_height = Finite 150\<rparr> ''image/png''
             (initial (\<lambda>a. 0)))))
     = [Entered F_drawSvg, Entered F_setCanvasSize, CanvasSized (Finite 64) (Finite 48),
        DrawImage5 (Finite 0) (Finite 0) (Finite 64) (Finite 48)]
   \<and> take 4 (events_since (initial (\<lambda>a. 0))
      (snd (drawSvg (demo_host None) (closure_of (demo_request returning_callback) 0x1000)
             \<lparr>img_width = Finite 300, img_height = Finite 150\<rparr> ''image/png''
             (initial (\<lambda>a. 0)))))
     = [Entered F_drawSvg, Entered F_setCanvasSize, CanvasSized (Finite 300) (Finite 150),
        DrawImage3 (Finite 0) (Finite 0)]"
  using drawSvg_surface_and_drawing
      [where h = "demo_host None"
         and c = "closure_of ((demo_request returning_callback)
             \<lparr>r_width := Finite 64, r_height := Finite 48\<rparr>) 0x1000"
         and img = "\<lparr>img_width = Finite 300, img_height = Finite 150\<rparr>"
         and w = "initial (\<lambda>a. 0)" and fmt = "''image/png''"]
    drawSvg_surface_and_drawing
      [where h = "demo_host None" and c = "closure_of (demo_request returning_callback) 0x1000"
         and img = "\<lparr>img_width = Finite 300, img_height = Finite 150\<rparr>"
         and w = "initial (\<lambda>a. 0)" and fmt = "''image/png''"]
  by (simp add: demo_host_def demo_request_def closure_of_def truthy_def)

text \<open>
  Claim C8 as stated fails in two ways.  For NaN: a NaN \<open>width\<close> is not zero, but it is
  falsy, so the canvas gets the size of the decoded image and the image is drawn
  unscaled.  Without a 2d context: with \<open>width = 64\<close> and \<open>height = 48\<close>, both non-zero, on
  a canvas that gives no context, the canvas is sized but no drawing call is made at all;
  the stage ends in \<open>CanvasDrawingFailed\<close>.
\<close>

theorem drawing_counterexample:
  "r_width ((demo_request returning_callback)\<lparr>r_width := NaN, r_height := Finite 100\<rparr>) \<noteq> Finite 0
   \<and> r_height ((demo_request returning_callback)\<lparr>r_width := NaN, r_height := Finite 100\<rparr>) \<noteq> Finite 0
   \<and> trace (run (demo_host None)
               ((demo_request returning_callback)\<lparr>r_width := NaN, r_height := Finite 100\<rparr>)
               (initial (\<lambda>a. 0))) =
     [HandleCreated 0x1000, HostEntered, Entered F_svgToDataUri,
      ImgSrcAssigned ''data:image/svg+xml;charset=utf8,%3Csvg%2F%3E'',
      Entered F_drawSvg, Entered F_setCanvasSize, CanvasSized (Finite 300) (Finite 150),
      DrawImage3 (Finite 0) (Finite 0), ToBlobCalled ''image/png'' (Finite 1),
      Entered F_processBlob, Entered F_failed, CallbackInvoked [] BlobExportFailed 0,
      HandleDestroyed 0x1000]
   \<and> trace (run ((demo_host None)\<lparr>h_getContext := False\<rparr>)
               ((demo_request returning_callback)
                  \<lparr>r_width := Finite 64, r_height := Finite 48\<rparr>)
               (initial (\<lambda>a. 0))) =
     [HandleCreated 0x1000, HostEntered, Entered F_svgToDataUri,
      ImgSrcAssigned ''data:image/svg+xml;charset=utf8,%3Csvg%2F%3E'',
      Entered F_drawSvg, Entered F_setCanvasSize, CanvasSized (Finite 64) (Finite 48),
      Entered F_failed, CallbackInvoked [] CanvasDrawingFailed 0, HandleDestroyed 0x1000]"
  by (simp add: eval_defs)

end
